theory Spec2Isabelle
  imports Complex_Main "HOL-Library.AList"
begin

section \<open>Python values, exceptions and the library calls the pipeline makes\<close>

text \<open>
  The values that \<^verbatim>\<open>json.loads\<close> hands to the program, and that the program stores and
  passes on unchanged: \<^verbatim>\<open>None\<close>, booleans, integers, floats, strings, lists and
  dictionaries. A Python \<^verbatim>\<open>int\<close> is unbounded (\<open>int\<close>). A Python \<^verbatim>\<open>float\<close> is
  modelled by the real number it denotes: rounding to the nearest double, infinities and
  NaN are outside the model. A dictionary is an association list with distinct keys in
  insertion order.
\<close>

datatype json =
    JNull
  | JBool bool
  | JInt int
  | JFloat real
  | JString string
  | JArray "json list"
  | JObject "(string \<times> json) list"

text \<open>An exception: its class, the text \<^verbatim>\<open>str(e)\<close> gives, and its \<^verbatim>\<open>__cause__\<close>.\<close>

datatype exn_class =
    ValueError
  | TypeError
  | AttributeError
  | IndexError
  | OverflowError
  | TimeoutError
  | JSONDecodeError
  | VerificationError
  | APIError

datatype exn = Exn (exn_class: exn_class) (exn_msg: string) (exn_cause: "exn option")

definition str_exn :: "exn \<Rightarrow> string" where
  "str_exn e = exn_msg e"

text \<open>
  The library functions whose results the source consumes, taken as parameters:
  \<^verbatim>\<open>json.loads\<close> on a \<^verbatim>\<open>str\<close> (\<open>Inl\<close> is the message of the
  \<^verbatim>\<open>JSONDecodeError\<close> it raises) and \<^verbatim>\<open>float\<close> on a \<^verbatim>\<open>str\<close> (\<open>Inl\<close> is the
  message of the \<^verbatim>\<open>ValueError\<close>).
\<close>

record pylib =
  json_loads :: "string \<Rightarrow> string + json"
  float_of_str :: "string \<Rightarrow> string + real"

text \<open>Truth value of an object, as \<^verbatim>\<open>if x:\<close> tests it.\<close>

fun truthy :: "json \<Rightarrow> bool" where
  "truthy JNull = False"
| "truthy (JBool b) = b"
| "truthy (JInt i) = (i \<noteq> 0)"
| "truthy (JFloat r) = (r \<noteq> 0)"
| "truthy (JString s) = (s \<noteq> [])"
| "truthy (JArray xs) = (xs \<noteq> [])"
| "truthy (JObject kvs) = (kvs \<noteq> [])"

fun type_name :: "json \<Rightarrow> string" where
  "type_name JNull = ''NoneType''"
| "type_name (JBool b) = ''bool''"
| "type_name (JInt i) = ''int''"
| "type_name (JFloat r) = ''float''"
| "type_name (JString s) = ''str''"
| "type_name (JArray xs) = ''list''"
| "type_name (JObject kvs) = ''dict''"

text \<open>\<^verbatim>\<open>d.get(key, default)\<close> on a dictionary.\<close>

definition dict_get :: "(string \<times> json) list \<Rightarrow> string \<Rightarrow> json \<Rightarrow> json" where
  "dict_get kvs k d = (case map_of kvs k of Some v \<Rightarrow> v | None \<Rightarrow> d)"

text \<open>
  \<^verbatim>\<open>response_data.get(key, default)\<close> on whatever \<^verbatim>\<open>json.loads\<close> returned: only a
  dictionary has the method.
\<close>

definition py_get :: "json \<Rightarrow> string \<Rightarrow> json \<Rightarrow> exn + json" where
  "py_get obj k d =
     (case obj of
        JObject kvs \<Rightarrow> Inr (dict_get kvs k d)
      | _ \<Rightarrow> Inl (Exn AttributeError
                 ([CHR 0x27] @ type_name obj @ [CHR 0x27] @ '' object has no attribute '' @
                  [CHR 0x27] @ ''get'' @ [CHR 0x27]) None))"

text \<open>
  \<^verbatim>\<open>float(x)\<close>. A float is returned as it is, an integer and a boolean are converted
  (an integer that rounds beyond the largest double raises \<^verbatim>\<open>OverflowError\<close>), a string
  is parsed, and anything else raises \<^verbatim>\<open>TypeError\<close>.
\<close>

definition py_float :: "pylib \<Rightarrow> json \<Rightarrow> exn + real" where
  "py_float lib x =
     (case x of
        JFloat r \<Rightarrow> Inr r
      | JInt i \<Rightarrow>
          (if \<bar>i\<bar> \<ge> 2 ^ 1024 - 2 ^ 970
           then Inl (Exn OverflowError ''int too large to convert to float'' None)
           else Inr (of_int i))
      | JBool b \<Rightarrow> Inr (if b then 1 else 0)
      | JString s \<Rightarrow>
          (case float_of_str lib s of
             Inl m \<Rightarrow> Inl (Exn ValueError m None)
           | Inr r \<Rightarrow> Inr r)
      | _ \<Rightarrow> Inl (Exn TypeError
                 (''float() argument must be a string or a real number, not '' @
                  [CHR 0x27] @ type_name x @ [CHR 0x27]) None))"

text \<open>\<^verbatim>\<open>int(x)\<close> on a float truncates towards zero.\<close>

definition py_int :: "real \<Rightarrow> int" where
  "py_int x = (if 0 \<le> x then \<lfloor>x\<rfloor> else \<lceil>x\<rceil>)"

text \<open>\<^verbatim>\<open>str(n)\<close> on an integer: its decimal digits, with a minus sign when negative.\<close>

fun digits_of :: "nat \<Rightarrow> string" where
  "digits_of n =
     (if n < 10 then [''0123456789'' ! n]
      else digits_of (n div 10) @ [''0123456789'' ! (n mod 10)])"

definition str_int :: "int \<Rightarrow> string" where
  "str_int i = (if i < 0 then CHR ''-'' # digits_of (nat (- i)) else digits_of (nat i))"

section \<open>claude\_verification.py\<close>

datatype TaskType =
    EVALUATION
  | PREDICTION
  | CODE_EXECUTION
  | CLASSIFICATION
  | ANNOTATION
  | HUMAN_REVIEW

text \<open>\<^verbatim>\<open>TaskType(s)\<close>: the member whose value is \<open>s\<close>, or \<^verbatim>\<open>ValueError\<close>.\<close>

definition TaskType_of :: "string \<Rightarrow> exn + TaskType" where
  "TaskType_of s =
     (if s = ''evaluation'' then Inr EVALUATION
      else if s = ''prediction'' then Inr PREDICTION
      else if s = ''code_execution'' then Inr CODE_EXECUTION
      else if s = ''classification'' then Inr CLASSIFICATION
      else if s = ''annotation'' then Inr ANNOTATION
      else if s = ''human_review'' then Inr HUMAN_REVIEW
      else Inl (Exn ValueError
                 ([CHR 0x27] @ s @ [CHR 0x27] @ '' is not a valid TaskType'') None))"

text \<open>
  \<^verbatim>\<open>VerificationResult\<close>. The dataclass annotates \<^verbatim>\<open>is_valid: bool\<close> and
  \<^verbatim>\<open>feedback: str\<close>, but nothing converts them: the parser stores what the dictionary
  held, so both are \<open>json\<close> here. Only the score goes through \<^verbatim>\<open>float\<close>.
\<close>

record VerificationResult =
  submission_id :: string
  task_id :: string
  is_valid :: json
  ai_score :: real
  feedback :: json
  model_used :: string
  verification_timestamp :: real
  execution_time_ms :: int

text \<open>
  \<^verbatim>\<open>re.search(r'\{.*\}', text, re.DOTALL)\<close>. The engine tries each start position from
  the left; at an opening brace the greedy \<^verbatim>\<open>.*\<close> (which, with \<^verbatim>\<open>DOTALL\<close>, matches any
  character) first takes the whole rest of the text and backs off until a closing brace
  follows. \<open>greedy_close cs\<close> is the longest prefix of \<open>cs\<close> that ends with a closing
  brace.
\<close>

fun greedy_close :: "string \<Rightarrow> string option" where
  "greedy_close [] = None"
| "greedy_close (c # cs) =
     (case greedy_close cs of
        Some m \<Rightarrow> Some (c # m)
      | None \<Rightarrow> if c = CHR ''}'' then Some [c] else None)"

fun re_search_braces :: "string \<Rightarrow> string option" where
  "re_search_braces [] = None"
| "re_search_braces (c # cs) =
     (if c = CHR ''{''
      then (case greedy_close cs of
              Some m \<Rightarrow> Some (c # m)
            | None \<Rightarrow> re_search_braces cs)
      else re_search_braces cs)"

text \<open>
  The construction of the result at the end of \<^verbatim>\<open>_parse_claude_response\<close>: the three
  \<^verbatim>\<open>.get\<close> calls and the \<^verbatim>\<open>float\<close> conversion, evaluated in argument order, then
  \<^verbatim>\<open>__post_init__\<close>, which stamps the time \<open>now\<close>.
\<close>

definition make_result :: "pylib \<Rightarrow> real \<Rightarrow> json \<Rightarrow> string \<Rightarrow> string \<Rightarrow> exn + VerificationResult" where
  "make_result lib now response_data sid tid =
     (case py_get response_data ''is_valid'' (JBool False) of
        Inl e \<Rightarrow> Inl e
      | Inr v \<Rightarrow>
     (case py_get response_data ''score'' (JFloat 0) of
        Inl e \<Rightarrow> Inl e
      | Inr s \<Rightarrow>
     (case py_float lib s of
        Inl e \<Rightarrow> Inl e
      | Inr sc \<Rightarrow>
     (case py_get response_data ''feedback'' (JString ''No feedback provided'') of
        Inl e \<Rightarrow> Inl e
      | Inr fb \<Rightarrow>
          Inr \<lparr> submission_id = sid, task_id = tid, is_valid = v, ai_score = sc,
                feedback = fb, model_used = ''claude-3-5-sonnet-20241022'',
                verification_timestamp = now, execution_time_ms = 0 \<rparr>))))"

text \<open>
  \<^verbatim>\<open>_parse_claude_response\<close>. The second \<^verbatim>\<open>json.loads\<close> runs inside the handler of the
  first, so a \<^verbatim>\<open>JSONDecodeError\<close> it raises leaves the function as it is.
\<close>

definition parse_claude_response :: "pylib \<Rightarrow> real \<Rightarrow> string \<Rightarrow> string \<Rightarrow> string \<Rightarrow> exn + VerificationResult" where
  "parse_claude_response lib now response_text sid tid =
     (case json_loads lib response_text of
        Inr response_data \<Rightarrow> make_result lib now response_data sid tid
      | Inl _ \<Rightarrow>
          (case re_search_braces response_text of
             Some json_match \<Rightarrow>
               (case json_loads lib json_match of
                  Inr response_data \<Rightarrow> make_result lib now response_data sid tid
                | Inl m \<Rightarrow> Inl (Exn JSONDecodeError m None))
           | None \<Rightarrow>
               Inl (Exn VerificationError
                      (''Could not parse Claude response: '' @ response_text) None)))"


text \<open>
  What the world contributes to one call of \<^verbatim>\<open>verify_submission\<close>: the environment
  variable read by the client's constructor, the outcome of building the prompt and of
  \<^verbatim>\<open>self.client.messages.create\<close> (an exception, or the content blocks of the message;
  the prompt itself only reaches the external service), and the three readings of
  \<^verbatim>\<open>time.time()\<close>: at the start, when the result object is constructed, and after
  parsing.
\<close>

datatype content_block = TextBlock string | NonTextBlock string

record effects =
  getenv_CLAUDE_API_KEY :: "string option"
  api_outcome :: "exn + content_block list"
  time_start :: real
  time_result :: real
  time_end :: real

text \<open>\<^verbatim>\<open>message.content[0].text\<close>.\<close>

definition first_text :: "content_block list \<Rightarrow> exn + string" where
  "first_text content =
     (case content of
        [] \<Rightarrow> Inl (Exn IndexError ''list index out of range'' None)
      | TextBlock t # _ \<Rightarrow> Inr t
      | NonTextBlock cls # _ \<Rightarrow>
          Inl (Exn AttributeError
                 ([CHR 0x27] @ cls @ [CHR 0x27] @ '' object has no attribute '' @
                  [CHR 0x27] @ ''text'' @ [CHR 0x27]) None))"

text \<open>
  The body of the \<^verbatim>\<open>try\<close> block of \<^verbatim>\<open>ClaudeVerificationClient.verify_submission\<close>.
  The elapsed time is measured after the blocking call and the parse have completed.
\<close>

definition verify_body :: "pylib \<Rightarrow> effects \<Rightarrow> string \<Rightarrow> string \<Rightarrow> int \<Rightarrow> exn + VerificationResult" where
  "verify_body lib fx sid tid timeout_seconds =
     (case api_outcome fx of
        Inl e \<Rightarrow> Inl e
      | Inr content \<Rightarrow>
     (case first_text content of
        Inl e \<Rightarrow> Inl e
      | Inr response_text \<Rightarrow>
     (case parse_claude_response lib (time_result fx) response_text sid tid of
        Inl e \<Rightarrow> Inl e
      | Inr result \<Rightarrow>
          (let execution_time = py_int ((time_end fx - time_start fx) * 1000)
           in if execution_time > timeout_seconds * 1000
              then Inl (Exn TimeoutError
                          (''Verification took '' @ str_int execution_time @
                           ''ms, exceeded '' @ str_int timeout_seconds @ ''s limit'') None)
              else Inr (result\<lparr>execution_time_ms := execution_time\<rparr>)))))"

text \<open>
  \<^verbatim>\<open>ClaudeVerificationClient.verify_submission\<close>: the handler
  \<^verbatim>\<open>except Exception as e: raise VerificationError(f"Verification failed: {str(e)}") from e\<close>
  around the body.
\<close>

definition client_verify_submission :: "pylib \<Rightarrow> effects \<Rightarrow> string \<Rightarrow> string \<Rightarrow> int \<Rightarrow> exn + VerificationResult" where
  "client_verify_submission lib fx sid tid timeout_seconds =
     (case verify_body lib fx sid tid timeout_seconds of
        Inl e \<Rightarrow> Inl (Exn VerificationError (''Verification failed: '' @ str_exn e) (Some e))
      | Inr result \<Rightarrow> Inr result)"

text \<open>\<^verbatim>\<open>ClaudeVerificationClient.__init__\<close>.\<close>

record client =
  client_api_key :: string
  client_model :: string

definition ClaudeVerificationClient_init :: "effects \<Rightarrow> string option \<Rightarrow> exn + client" where
  "ClaudeVerificationClient_init fx api_key =
     (case (case api_key of None \<Rightarrow> getenv_CLAUDE_API_KEY fx | Some k \<Rightarrow> Some k) of
        None \<Rightarrow> Inl (Exn ValueError
                       ''CLAUDE_API_KEY not set in environment or passed as argument'' None)
      | Some k \<Rightarrow>
          if k = [] then Inl (Exn ValueError
                       ''CLAUDE_API_KEY not set in environment or passed as argument'' None)
          else Inr \<lparr> client_api_key = k, client_model = ''claude-3-5-sonnet-20241022'' \<rparr>)"

text \<open>
  The module-level \<^verbatim>\<open>verify_submission\<close>: constructs a client (outside any handler) and
  calls the method with the default budget of 30 seconds.
\<close>

definition verify_submission :: "pylib \<Rightarrow> effects \<Rightarrow> string \<Rightarrow> string \<Rightarrow> string option \<Rightarrow> exn + VerificationResult" where
  "verify_submission lib fx sid tid api_key =
     (case ClaudeVerificationClient_init fx api_key of
        Inl e \<Rightarrow> Inl e
      | Inr c \<Rightarrow> client_verify_submission lib fx sid tid 30)"

section \<open>frontend/services.py\<close>

text \<open>
  The remote tables, as the lists of their rows. \<^verbatim>\<open>select("*").eq(col, v)\<close> returns the
  rows whose column equals \<open>v\<close>, in table order; \<^verbatim>\<open>update(fields).eq(col, v)\<close> changes
  every such row; \<^verbatim>\<open>insert(row)\<close> appends the row and returns it. The store is taken to
  answer every request.
\<close>

record task_row =
  t_id :: string
  t_title :: string
  t_task_type :: string
  t_reward_per_submission :: real
  t_total_budget :: real
  t_verification_criteria :: json
  t_instructions :: json
  t_max_submissions :: "int option"
  t_status :: string
  t_current_submissions :: int

record user_row =
  u_id :: string
  u_wallet_address :: string
  u_username :: string
  u_reputation_score :: int
  u_total_tasks_completed :: int
  u_total_rewards_earned :: real
  u_created_at :: string

record submission_row =
  s_id :: string
  s_task_id :: string
  s_user_id :: string
  s_submission_data :: json
  s_ai_score :: "real option"
  s_is_valid :: "json option"
  s_feedback :: "json option"
  s_reward_earned :: real
  s_is_paid :: bool
  s_created_at :: string

record event_row =
  e_id :: string
  e_user_id :: string
  e_event_type :: string
  e_reason :: json
  e_delta :: int
  e_created_at :: string

record db =
  tasks :: "task_row list"
  users :: "user_row list"
  submissions :: "submission_row list"
  reputation_events :: "event_row list"

text \<open>\<^verbatim>\<open>TaskService.get_task\<close>.\<close>

definition get_task :: "db \<Rightarrow> string \<Rightarrow> task_row option" where
  "get_task d tid =
     (case filter (\<lambda>t. t_id t = tid) (tasks d) of
        [] \<Rightarrow> None
      | t # _ \<Rightarrow> Some t)"

text \<open>\<^verbatim>\<open>TaskService.update_task_submission_count\<close>.\<close>

definition update_task_submission_count :: "db \<Rightarrow> string \<Rightarrow> db" where
  "update_task_submission_count d tid =
     (case filter (\<lambda>t. t_id t = tid) (tasks d) of
        [] \<Rightarrow> d
      | task # _ \<Rightarrow>
          (let current = t_current_submissions task
           in d\<lparr>tasks := map (\<lambda>t. if t_id t = tid
                                   then t\<lparr>t_current_submissions := current + 1\<rparr> else t)
                              (tasks d)\<rparr>))"

text \<open>
  \<^verbatim>\<open>UserService.get_or_create_user\<close>; \<open>uuid\<close> and \<open>now\<close> are the results of
  \<^verbatim>\<open>uuid.uuid4()\<close> and \<^verbatim>\<open>datetime.utcnow().isoformat()\<close>.
\<close>

definition get_or_create_user :: "db \<Rightarrow> string \<Rightarrow> string \<Rightarrow> string \<Rightarrow> string option \<Rightarrow> db \<times> user_row" where
  "get_or_create_user d uuid now wallet_address username =
     (case filter (\<lambda>u. u_wallet_address u = wallet_address) (users d) of
        u # _ \<Rightarrow> (d, u)
      | [] \<Rightarrow>
          (let username' = (case username of
                              None \<Rightarrow> ''miner_'' @ take 8 wallet_address
                            | Some n \<Rightarrow> if n = [] then ''miner_'' @ take 8 wallet_address else n);
               user_data = \<lparr> u_id = uuid, u_wallet_address = wallet_address,
                             u_username = username', u_reputation_score = 50,
                             u_total_tasks_completed = 0, u_total_rewards_earned = 0,
                             u_created_at = now \<rparr>
           in (d\<lparr>users := users d @ [user_data]\<rparr>, user_data)))"

text \<open>\<^verbatim>\<open>UserService.get_user_by_wallet\<close>.\<close>

definition get_user_by_wallet :: "db \<Rightarrow> string \<Rightarrow> user_row option" where
  "get_user_by_wallet d wallet_address =
     (case filter (\<lambda>u. u_wallet_address u = wallet_address) (users d) of
        [] \<Rightarrow> None
      | u # _ \<Rightarrow> Some u)"

text \<open>\<^verbatim>\<open>UserService.update_user_reputation\<close>.\<close>

definition update_user_reputation :: "db \<Rightarrow> string \<Rightarrow> int \<Rightarrow> db" where
  "update_user_reputation d user_id delta =
     (case filter (\<lambda>u. u_id u = user_id) (users d) of
        [] \<Rightarrow> d
      | user # _ \<Rightarrow>
          (let current_rep = u_reputation_score user;
               new_rep = max 0 (min 100 (current_rep + delta))
           in d\<lparr>users := map (\<lambda>u. if u_id u = user_id
                                   then u\<lparr>u_reputation_score := new_rep\<rparr> else u)
                              (users d)\<rparr>))"

text \<open>\<^verbatim>\<open>SubmissionService.create_submission\<close>.\<close>

definition create_submission :: "db \<Rightarrow> string \<Rightarrow> string \<Rightarrow> string \<Rightarrow> string \<Rightarrow> json \<Rightarrow> db \<times> submission_row" where
  "create_submission d uuid now tid user_id submission_data =
     (let submission_obj = \<lparr> s_id = uuid, s_task_id = tid, s_user_id = user_id,
                              s_submission_data = submission_data, s_ai_score = None,
                              s_is_valid = None, s_feedback = None, s_reward_earned = 0,
                              s_is_paid = False, s_created_at = now \<rparr>
      in (d\<lparr>submissions := submissions d @ [submission_obj]\<rparr>, submission_obj))"

text \<open>\<^verbatim>\<open>SubmissionService.get_submission\<close>.\<close>

definition get_submission :: "db \<Rightarrow> string \<Rightarrow> submission_row option" where
  "get_submission d sid =
     (case filter (\<lambda>s. s_id s = sid) (submissions d) of
        [] \<Rightarrow> None
      | s # _ \<Rightarrow> Some s)"

text \<open>\<^verbatim>\<open>SubmissionService.update_submission_verification\<close>.\<close>

definition update_submission_verification :: "db \<Rightarrow> string \<Rightarrow> real \<Rightarrow> json \<Rightarrow> json \<Rightarrow> real \<Rightarrow> db" where
  "update_submission_verification d sid score valid fb reward =
     d\<lparr>submissions := map (\<lambda>s. if s_id s = sid
                                then s\<lparr>s_ai_score := Some score, s_is_valid := Some valid,
                                       s_feedback := Some fb, s_reward_earned := reward\<rparr>
                                else s)
                           (submissions d)\<rparr>"

text \<open>
  \<^verbatim>\<open>ReputationService.create_reputation_event\<close>: the event row holds the delta it was
  called with; the user's score is then updated.
\<close>

definition create_reputation_event :: "db \<Rightarrow> string \<Rightarrow> string \<Rightarrow> string \<Rightarrow> string \<Rightarrow> json \<Rightarrow> int \<Rightarrow> db" where
  "create_reputation_event d uuid now user_id event_type reason delta =
     (let event_data = \<lparr> e_id = uuid, e_user_id = user_id, e_event_type = event_type,
                          e_reason = reason, e_delta = delta, e_created_at = now \<rparr>;
          d' = d\<lparr>reputation_events := reputation_events d @ [event_data]\<rparr>
      in update_user_reputation d' user_id delta)"


section \<open>main.py\<close>

record SubmitInferenceRequest =
  miner_wallet :: string
  submission_data :: json

datatype http_exception = HTTPException (status_code: int) (detail: string)

record submit_response =
  resp_status :: string
  resp_submission_id :: string
  resp_verification :: VerificationResult
  resp_reward_earned :: real

text \<open>
  The identifiers and timestamps one request draws (\<^verbatim>\<open>uuid.uuid4()\<close>,
  \<^verbatim>\<open>datetime.utcnow().isoformat()\<close>) for the user, the submission and the reputation
  event it may create.
\<close>

record fresh =
  uuid_user :: string
  now_user :: string
  uuid_submission :: string
  now_submission :: string
  uuid_event :: string
  now_event :: string

text \<open>
  \<^verbatim>\<open>submit_inference\<close> of main.py. The result is the store after the request and either
  the \<^verbatim>\<open>HTTPException\<close> raised or the response returned. The inner \<^verbatim>\<open>try\<close> covers the
  conversion \<^verbatim>\<open>TaskType(task["task_type"])\<close> as well as the call.
\<close>

definition submit_inference :: "pylib \<Rightarrow> effects \<Rightarrow> fresh \<Rightarrow> db \<Rightarrow> string \<Rightarrow> SubmitInferenceRequest \<Rightarrow> db \<times> (http_exception + submit_response)" where
  "submit_inference lib fx fr d tid request =
     (case get_task d tid of
        None \<Rightarrow> (d, Inl (HTTPException 404 ''Task not found''))
      | Some task \<Rightarrow>
          (let (d1, user) = get_or_create_user d (uuid_user fr) (now_user fr)
                              (miner_wallet request) None;
               (d2, submission) = create_submission d1 (uuid_submission fr) (now_submission fr)
                                    tid (u_id user) (submission_data request)
           in case (case TaskType_of (t_task_type task) of
                      Inl e \<Rightarrow> Inl e
                    | Inr task_type \<Rightarrow> verify_submission lib fx (s_id submission) tid None) of
                Inr verification_result \<Rightarrow>
                  (let reward_earned = t_reward_per_submission task * ai_score verification_result;
                       d3 = update_submission_verification d2 (s_id submission)
                              (ai_score verification_result) (is_valid verification_result)
                              (feedback verification_result) reward_earned;
                       (reputation_delta, event_type) =
                          (if truthy (is_valid verification_result)
                           then (5, ''submission_accepted'')
                           else (- 2, ''submission_rejected''));
                       d4 = create_reputation_event d3 (uuid_event fr) (now_event fr) (u_id user)
                              event_type (feedback verification_result) reputation_delta;
                       d5 = update_task_submission_count d4 tid
                   in (d5, Inr \<lparr> resp_status = ''success'',
                                  resp_submission_id = s_id submission,
                                  resp_verification = verification_result,
                                  resp_reward_earned = reward_earned \<rparr>))
              | Inl e \<Rightarrow>
                  (let d3 = update_submission_verification d2 (s_id submission) 0 (JBool False)
                              (JString (''Verification error: '' @ str_exn e)) 0;
                       d4 = create_reputation_event d3 (uuid_event fr) (now_event fr) (u_id user)
                              ''submission_rejected'' (JString ''Verification failed'') (- 1)
                   in (d4, Inl (HTTPException 500 (''Verification failed: '' @ str_exn e))))))"

text \<open>
  The expression the inner \<^verbatim>\<open>try\<close> of \<^verbatim>\<open>submit_inference\<close> guards, and the user the
  request resolves to.
\<close>

abbreviation guarded_call :: "pylib \<Rightarrow> effects \<Rightarrow> fresh \<Rightarrow> task_row \<Rightarrow> string \<Rightarrow> exn + VerificationResult" where
  "guarded_call lib fx fr task tid \<equiv>
     (case TaskType_of (t_task_type task) of
        Inl e \<Rightarrow> Inl e
      | Inr task_type \<Rightarrow> verify_submission lib fx (uuid_submission fr) tid None)"

abbreviation request_user :: "db \<Rightarrow> fresh \<Rightarrow> SubmitInferenceRequest \<Rightarrow> user_row" where
  "request_user d fr request \<equiv>
     snd (get_or_create_user d (uuid_user fr) (now_user fr) (miner_wallet request) None)"

section \<open>backend/app.py\<close>

text \<open>
  The object \<^verbatim>\<open>get_mock_verification_result_object\<close> returns, and the two kinds of object
  the endpoint reads its attributes from.
\<close>

record MockVerificationResult =
  mock_submission_id :: string
  mock_task_id :: string
  mock_is_valid :: bool
  mock_ai_score :: real
  mock_feedback :: string
  mock_model_used :: string
  mock_execution_time_ms :: int

definition get_mock_verification_result_object :: "string \<Rightarrow> string \<Rightarrow> json \<Rightarrow> MockVerificationResult" where
  "get_mock_verification_result_object sid tid data =
     \<lparr> mock_submission_id = sid, mock_task_id = tid, mock_is_valid = True,
       mock_ai_score = 0.85,
       mock_feedback = ''Mock verification: Submission appears correct based on task requirements'',
       mock_model_used = ''mock-verifier'', mock_execution_time_ms = 100 \<rparr>"

datatype verification_obj = ClaudeResult VerificationResult | MockResult MockVerificationResult

fun obj_is_valid :: "verification_obj \<Rightarrow> json" where
  "obj_is_valid (ClaudeResult r) = is_valid r"
| "obj_is_valid (MockResult m) = JBool (mock_is_valid m)"

fun obj_ai_score :: "verification_obj \<Rightarrow> real" where
  "obj_ai_score (ClaudeResult r) = ai_score r"
| "obj_ai_score (MockResult m) = mock_ai_score m"

fun obj_feedback :: "verification_obj \<Rightarrow> json" where
  "obj_feedback (ClaudeResult r) = feedback r"
| "obj_feedback (MockResult m) = JString (mock_feedback m)"

fun obj_model_used :: "verification_obj \<Rightarrow> string" where
  "obj_model_used (ClaudeResult r) = model_used r"
| "obj_model_used (MockResult m) = mock_model_used m"

fun obj_execution_time_ms :: "verification_obj \<Rightarrow> int" where
  "obj_execution_time_ms (ClaudeResult r) = execution_time_ms r"
| "obj_execution_time_ms (MockResult m) = mock_execution_time_ms m"

text \<open>
  The two module-level dictionaries. A submission is a dictionary that gains keys when it
  is verified: a field that is \<open>None\<close> is a key not yet present.
\<close>

record app_task =
  at_id :: string
  at_task_type :: string
  at_reward_per_submission :: real
  at_verification_criteria :: json
  at_instructions :: json
  at_status :: string
  at_current_submissions :: int

record app_submission =
  as_id :: string
  as_task_id :: string
  as_submission_data :: json
  as_created_at :: string
  as_status :: string
  as_ai_score :: "real option"
  as_is_valid :: "json option"
  as_feedback :: "json option"
  as_reward_earned :: "real option"
  as_verified_at :: "string option"
  as_model_used :: "string option"
  as_verification_time_ms :: "int option"
  as_verification_type :: "string option"

record app_state =
  tasks_db :: "string \<rightharpoonup> app_task"
  submissions_db :: "string \<rightharpoonup> app_submission"

record app_response =
  ar_status :: string
  ar_submission_id :: string
  ar_is_valid :: json
  ar_ai_score :: real
  ar_feedback :: json
  ar_model_used :: string
  ar_verification_time_ms :: int
  ar_verification_type :: string
  ar_reward_earned :: real
  ar_message :: string

text \<open>
  The verification step of \<^verbatim>\<open>submit_inference\<close> of app.py: \<open>claude_available\<close> is the
  module-level flag \<^verbatim>\<open>CLAUDE_AVAILABLE\<close>, set once when the module is imported. With the
  flag set, any exception of the call is caught and the mock object is used instead.
\<close>

definition app_verify :: "pylib \<Rightarrow> effects \<Rightarrow> bool \<Rightarrow> app_task \<Rightarrow> string \<Rightarrow> string \<Rightarrow> json \<Rightarrow> verification_obj \<times> string" where
  "app_verify lib fx claude_available task sid tid data =
     (if claude_available
      then (case (case TaskType_of (at_task_type task) of
                    Inl e \<Rightarrow> Inl e
                  | Inr task_type \<Rightarrow> verify_submission lib fx sid tid None) of
              Inr r \<Rightarrow> (ClaudeResult r, ''claude_ai'')
            | Inl claude_error \<Rightarrow>
                (MockResult (get_mock_verification_result_object sid tid data), ''mock_fallback''))
      else (MockResult (get_mock_verification_result_object sid tid data), ''mock''))"

text \<open>\<^verbatim>\<open>submit_inference\<close> of app.py; \<open>uuid\<close>, \<open>now\<close> and \<open>now'\<close> are the identifier and the
  two timestamps it draws.\<close>

definition app_submit_inference :: "pylib \<Rightarrow> effects \<Rightarrow> bool \<Rightarrow> string \<Rightarrow> string \<Rightarrow> string \<Rightarrow> app_state \<Rightarrow> string \<Rightarrow> json \<Rightarrow> app_state \<times> (http_exception + app_response)" where
  "app_submit_inference lib fx claude_available uuid now now' st tid data =
     (case tasks_db st tid of
        None \<Rightarrow> (st, Inl (HTTPException 404 ''Task not found''))
      | Some task \<Rightarrow>
          (let sid = uuid;
               pending = \<lparr> as_id = sid, as_task_id = tid, as_submission_data = data,
                           as_created_at = now, as_status = ''pending'', as_ai_score = None,
                           as_is_valid = None, as_feedback = None, as_reward_earned = None,
                           as_verified_at = None, as_model_used = None,
                           as_verification_time_ms = None, as_verification_type = None \<rparr>;
               (verification_result, verification_type) =
                  app_verify lib fx claude_available task sid tid data;
               reward_earned = at_reward_per_submission task * obj_ai_score verification_result;
               completed = pending\<lparr> as_ai_score := Some (obj_ai_score verification_result),
                                    as_is_valid := Some (obj_is_valid verification_result),
                                    as_feedback := Some (obj_feedback verification_result),
                                    as_reward_earned := Some reward_earned,
                                    as_status := ''completed'',
                                    as_verified_at := Some now',
                                    as_model_used := Some (obj_model_used verification_result),
                                    as_verification_time_ms :=
                                      Some (obj_execution_time_ms verification_result),
                                    as_verification_type := Some verification_type \<rparr>;
               task' = task\<lparr>at_current_submissions := at_current_submissions task + 1\<rparr>
           in (st\<lparr> submissions_db := (submissions_db st)(sid \<mapsto> completed),
                   tasks_db := (tasks_db st)(tid \<mapsto> task') \<rparr>,
               Inr \<lparr> ar_status = ''success'', ar_submission_id = sid,
                     ar_is_valid = obj_is_valid verification_result,
                     ar_ai_score = obj_ai_score verification_result,
                     ar_feedback = obj_feedback verification_result,
                     ar_model_used = obj_model_used verification_result,
                     ar_verification_time_ms = obj_execution_time_ms verification_result,
                     ar_verification_type = verification_type,
                     ar_reward_earned = reward_earned,
                     ar_message = ''Submission verified successfully using '' @
                                  verification_type \<rparr>)))"


section \<open>A reference decoder for the standard library's parameters\<close>

text \<open>
  A decoder after CPython's \<^verbatim>\<open>json.decoder\<close> and \<^verbatim>\<open>json.scanner\<close>, used to run the
  pipeline on concrete texts. It covers whitespace, objects, arrays, strings with the
  one-character escapes, numbers and the three literals. Two things CPython accepts are
  outside it and are reported as failures: a \<^verbatim>\<open>\uXXXX\<close> escape, and the tokens
  \<^verbatim>\<open>NaN\<close>, \<^verbatim>\<open>Infinity\<close> and \<^verbatim>\<open>-Infinity\<close>.
\<close>

definition is_ws :: "char \<Rightarrow> bool" where
  "is_ws c = (c = CHR '' '' \<or> c = CHR 0x09 \<or> c = CHR 0x0A \<or> c = CHR 0x0D)"

definition skip_ws :: "string \<Rightarrow> string" where
  "skip_ws s = dropWhile is_ws s"

definition is_digit :: "char \<Rightarrow> bool" where
  "is_digit c = (48 \<le> (of_char c :: nat) \<and> (of_char c :: nat) \<le> 57)"

definition nat_of_digits :: "string \<Rightarrow> nat" where
  "nat_of_digits ds = foldl (\<lambda>a c. 10 * a + (of_char c - 48)) 0 ds"

text \<open>The character an escape \<^verbatim>\<open>\c\<close> stands for.\<close>

definition escape_char :: "char \<Rightarrow> char option" where
  "escape_char e =
     (if e = CHR 0x22 then Some (CHR 0x22)
      else if e = CHR 0x5C then Some (CHR 0x5C)
      else if e = CHR ''/'' then Some (CHR ''/'')
      else if e = CHR ''b'' then Some (CHR 0x08)
      else if e = CHR ''f'' then Some (CHR 0x0C)
      else if e = CHR ''n'' then Some (CHR 0x0A)
      else if e = CHR ''r'' then Some (CHR 0x0D)
      else if e = CHR ''t'' then Some (CHR 0x09)
      else None)"

text \<open>
  \<^verbatim>\<open>scanstring\<close>, from the character after the opening quote: the decoded string and the
  text after the closing quote. A raw control character is refused (strict mode).
\<close>

fun scanstring :: "string \<Rightarrow> (string \<times> string) option" where
  "scanstring [] = None"
| "scanstring (c # cs) =
     (if c = CHR 0x22 then Some ([], cs)
      else if c = CHR 0x5C then
        (case cs of
           [] \<Rightarrow> None
         | e # cs' \<Rightarrow>
             (case escape_char e of
                None \<Rightarrow> None
              | Some ch \<Rightarrow>
                  (case scanstring cs' of
                     None \<Rightarrow> None
                   | Some (str, rest) \<Rightarrow> Some (ch # str, rest))))
      else if (of_char c :: nat) < 0x20 then None
      else (case scanstring cs of
              None \<Rightarrow> None
            | Some (str, rest) \<Rightarrow> Some (c # str, rest)))"

text \<open>
  \<^verbatim>\<open>NUMBER_RE.match\<close>: \<^verbatim>\<open>(-?(?:0|[1-9][0-9]*))(\.[0-9]+)?([eE][-+]?[0-9]+)?\<close>. Without a
  fraction and an exponent the number is an \<^verbatim>\<open>int\<close>, otherwise a \<^verbatim>\<open>float\<close>.
\<close>

definition match_integer :: "string \<Rightarrow> (bool \<times> string \<times> string) option" where
  "match_integer s =
     (let (neg, s1) = (case s of c # r \<Rightarrow> if c = CHR ''-'' then (True, r) else (False, s)
                                | [] \<Rightarrow> (False, s))
      in case s1 of
           [] \<Rightarrow> None
         | c # r \<Rightarrow>
             if c = CHR ''0'' then Some (neg, [c], r)
             else if is_digit c then Some (neg, takeWhile is_digit s1, dropWhile is_digit s1)
             else None)"

definition match_frac :: "string \<Rightarrow> (string \<times> string) option" where
  "match_frac s =
     (case s of
        c # r \<Rightarrow> if c = CHR ''.'' \<and> takeWhile is_digit r \<noteq> []
                 then Some (takeWhile is_digit r, dropWhile is_digit r) else None
      | [] \<Rightarrow> None)"

definition match_exp :: "string \<Rightarrow> (int \<times> string) option" where
  "match_exp s =
     (case s of
        c # r \<Rightarrow>
          if c = CHR ''e'' \<or> c = CHR ''E'' then
            (let (neg, r1) = (case r of
                                sg # r' \<Rightarrow> if sg = CHR ''-'' then (True, r')
                                           else if sg = CHR ''+'' then (False, r')
                                           else (False, r)
                              | [] \<Rightarrow> (False, r))
             in if takeWhile is_digit r1 = [] then None
                else Some ((if neg then - 1 else 1) * int (nat_of_digits (takeWhile is_digit r1)),
                           dropWhile is_digit r1))
          else None
      | [] \<Rightarrow> None)"

definition match_number :: "string \<Rightarrow> (json \<times> string) option" where
  "match_number s =
     (case match_integer s of
        None \<Rightarrow> None
      | Some (neg, ds, r) \<Rightarrow>
          (let sgn = (if neg then - 1 else 1 :: int);
               frac = match_frac r;
               r1 = (case frac of None \<Rightarrow> r | Some (_, r') \<Rightarrow> r');
               ex = match_exp r1;
               r2 = (case ex of None \<Rightarrow> r1 | Some (_, r') \<Rightarrow> r')
           in if frac = None \<and> ex = None
              then Some (JInt (sgn * int (nat_of_digits ds)), r2)
              else (let fds = (case frac of None \<Rightarrow> [] | Some (f, _) \<Rightarrow> f);
                        e = (case ex of None \<Rightarrow> 0 | Some (k, _) \<Rightarrow> k);
                        mant = real (nat_of_digits ds) + real (nat_of_digits fds) / 10 ^ length fds
                    in Some (JFloat (real_of_int sgn * mant *
                                     (if 0 \<le> e then 10 ^ nat e else 1 / 10 ^ nat (- e))), r2))))"

text \<open>
  \<^verbatim>\<open>scan_once\<close>, \<^verbatim>\<open>JSONObject\<close> (from the first key's opening quote on) and
  \<^verbatim>\<open>JSONArray\<close> (from the first element on). The first argument bounds the depth of the
  calls; the bound \<open>json_decode\<close> starts with is never used up, and the result is the same
  for every larger one (\<open>json_decode_bound\<close> below). A later pair with the same key
  replaces the value of the earlier one, as \<^verbatim>\<open>dict(pairs)\<close> does.
\<close>

fun scan_once :: "nat \<Rightarrow> string \<Rightarrow> (json \<times> string) option"
  and parse_members :: "nat \<Rightarrow> string \<Rightarrow> (string \<times> json) list \<Rightarrow> (json \<times> string) option"
  and parse_elems :: "nat \<Rightarrow> string \<Rightarrow> json list \<Rightarrow> (json \<times> string) option" where
  "scan_once 0 s = None"
| "scan_once (Suc n) [] = None"
| "scan_once (Suc n) (c # cs) =
     (if c = CHR 0x22 then
        (case scanstring cs of None \<Rightarrow> None | Some (str, rest) \<Rightarrow> Some (JString str, rest))
      else if c = CHR ''{'' then
        (case skip_ws cs of
           [] \<Rightarrow> None
         | c' # r \<Rightarrow> if c' = CHR ''}'' then Some (JObject [], r)
                     else if c' = CHR 0x22 then parse_members n r []
                     else None)
      else if c = CHR ''['' then
        (case skip_ws cs of
           [] \<Rightarrow> None
         | c' # r \<Rightarrow> if c' = CHR '']'' then Some (JArray [], r)
                     else parse_elems n (c' # r) [])
      else if c = CHR ''n'' \<and> take 4 (c # cs) = ''null'' then Some (JNull, drop 4 (c # cs))
      else if c = CHR ''t'' \<and> take 4 (c # cs) = ''true'' then Some (JBool True, drop 4 (c # cs))
      else if c = CHR ''f'' \<and> take 5 (c # cs) = ''false'' then Some (JBool False, drop 5 (c # cs))
      else match_number (c # cs))"
| "parse_members 0 s pairs = None"
| "parse_members (Suc n) s pairs =
     (case scanstring s of
        None \<Rightarrow> None
      | Some (key, r) \<Rightarrow>
          (case skip_ws r of
             [] \<Rightarrow> None
           | c # r1 \<Rightarrow>
               if c \<noteq> CHR '':'' then None
               else (case scan_once n (skip_ws r1) of
                       None \<Rightarrow> None
                     | Some (v, r2) \<Rightarrow>
                         (let pairs' = AList.update key v pairs
                          in case skip_ws r2 of
                               [] \<Rightarrow> None
                             | c' # r3 \<Rightarrow>
                                 if c' = CHR ''}'' then Some (JObject pairs', r3)
                                 else if c' = CHR '','' then
                                   (case skip_ws r3 of
                                      [] \<Rightarrow> None
                                    | q # r4 \<Rightarrow> if q = CHR 0x22 then parse_members n r4 pairs'
                                               else None)
                                 else None))))"
| "parse_elems 0 s vals = None"
| "parse_elems (Suc n) s vals =
     (case scan_once n s of
        None \<Rightarrow> None
      | Some (v, r) \<Rightarrow>
          (case skip_ws r of
             [] \<Rightarrow> None
           | c # r1 \<Rightarrow>
               if c = CHR '']'' then Some (JArray (vals @ [v]), r1)
               else if c = CHR '','' then parse_elems n (skip_ws r1) (vals @ [v])
               else None))"

text \<open>
  \<^verbatim>\<open>JSONDecoder.decode\<close>: leading whitespace, one value, trailing whitespace, and nothing
  else (``Extra data'' otherwise).
\<close>

definition json_decode :: "string \<Rightarrow> json option" where
  "json_decode s =
     (case scan_once (2 * length s + 2) (skip_ws s) of
        None \<Rightarrow> None
      | Some (v, rest) \<Rightarrow> if skip_ws rest = [] then Some v else None)"

text \<open>
  The library instance built on the decoder. The text of a decoding failure (CPython
  says what it expected and where) is not modelled: every failure carries the same text.
  \<^verbatim>\<open>float\<close> on a string is covered for strings in JSON number syntax only.
\<close>

definition std_lib :: pylib where
  "std_lib =
     \<lparr> json_loads = (\<lambda>s. case json_decode s of
                            None \<Rightarrow> Inl ''invalid JSON document''
                          | Some v \<Rightarrow> Inr v),
       float_of_str = (\<lambda>s. case match_number s of
                              Some (JFloat r, []) \<Rightarrow> Inr r
                            | Some (JInt i, []) \<Rightarrow> Inr (of_int i)
                            | _ \<Rightarrow> Inl (''could not convert string to float: '' @ s)) \<rparr>"

section \<open>The extraction as the specification words it\<close>

text \<open>
  ``Scan for the first balanced \<^verbatim>\<open>{...}\<close> substring'': from an opening brace, count the
  braces until the one that closes it; take the leftmost opening brace that is closed.
  \<open>scan_balanced d cs\<close> is the prefix of \<open>cs\<close> up to the brace that closes \<open>d\<close> open ones.
\<close>

fun scan_balanced :: "nat \<Rightarrow> string \<Rightarrow> string option" where
  "scan_balanced d [] = None"
| "scan_balanced d (c # cs) =
     (if c = CHR ''{'' then map_option ((#) c) (scan_balanced (Suc d) cs)
      else if c = CHR ''}'' then
        (if d \<le> 1 then Some [c] else map_option ((#) c) (scan_balanced (d - 1) cs))
      else map_option ((#) c) (scan_balanced d cs))"

fun first_balanced :: "string \<Rightarrow> string option" where
  "first_balanced [] = None"
| "first_balanced (c # cs) =
     (if c = CHR ''{''
      then (case scan_balanced 1 cs of
              Some m \<Rightarrow> Some (c # m)
            | None \<Rightarrow> first_balanced cs)
      else first_balanced cs)"

text \<open>
  The two-stage parse of the specification: the whole text, then the first balanced
  substring; the result is built as the source builds it.
\<close>

definition spec_parse_first_balanced :: "pylib \<Rightarrow> real \<Rightarrow> string \<Rightarrow> string \<Rightarrow> string \<Rightarrow> exn + VerificationResult" where
  "spec_parse_first_balanced lib now response_text sid tid =
     (case json_loads lib response_text of
        Inr response_data \<Rightarrow> make_result lib now response_data sid tid
      | Inl _ \<Rightarrow>
          (case first_balanced response_text of
             Some m \<Rightarrow>
               (case json_loads lib m of
                  Inr response_data \<Rightarrow> make_result lib now response_data sid tid
                | Inl msg \<Rightarrow> Inl (Exn VerificationError
                                   (''Could not parse Claude response: '' @ response_text) None))
           | None \<Rightarrow>
               Inl (Exn VerificationError
                      (''Could not parse Claude response: '' @ response_text) None)))"


section \<open>Example data\<close>

definition ex_task :: task_row where
  "ex_task = \<lparr> t_id = ''t1'', t_title = ''Dogs or cats'', t_task_type = ''classification'',
       t_reward_per_submission = 10, t_total_budget = 100,
       t_verification_criteria = JObject [(''correct_answer'', JString ''dogs'')],
       t_instructions = JObject [(''prompt'', JString ''Is this text about dogs or cats?'')],
       t_max_submissions = None, t_status = ''active'', t_current_submissions = 3 \<rparr>"

definition ex_user98 :: user_row where
  "ex_user98 = \<lparr> u_id = ''u1'', u_wallet_address = ''0x1111111111111111111111111111111111111111'',
       u_username = ''miner_0x111111'', u_reputation_score = 98,
       u_total_tasks_completed = 0, u_total_rewards_earned = 0,
       u_created_at = ''2024-01-01T00:00:00'' \<rparr>"

definition ex_user1 :: user_row where
  "ex_user1 = \<lparr> u_id = ''u2'', u_wallet_address = ''0x2222222222222222222222222222222222222222'',
       u_username = ''miner_0x222222'', u_reputation_score = 1,
       u_total_tasks_completed = 0, u_total_rewards_earned = 0,
       u_created_at = ''2024-01-02T00:00:00'' \<rparr>"

definition ex_db :: db where
  "ex_db = \<lparr> tasks = [ex_task], users = [ex_user98, ex_user1], submissions = [],
              reputation_events = [] \<rparr>"

definition ex_request :: SubmitInferenceRequest where
  "ex_request = \<lparr> miner_wallet = ''0x1111111111111111111111111111111111111111'',
                    submission_data = JObject [(''answer'', JString ''dogs'')] \<rparr>"

definition ex_fresh :: fresh where
  "ex_fresh = \<lparr> uuid_user = ''u9'', now_user = ''2024-02-01T10:00:00'',
                  uuid_submission = ''s1'', now_submission = ''2024-02-01T10:00:01'',
                  uuid_event = ''e1'', now_event = ''2024-02-01T10:00:03'' \<rparr>"

definition ex_fx_ok :: effects where
  "ex_fx_ok = \<lparr> getenv_CLAUDE_API_KEY = Some ''sk-test'',
       api_outcome = Inr [TextBlock ''{\"is_valid\": true, \"score\": 0.85, \"feedback\": \"ok\"}''],
       time_start = 100, time_result = 101, time_end = 101.5 \<rparr>"

definition ex_vr_ok :: VerificationResult where
  "ex_vr_ok = \<lparr> submission_id = ''s1'', task_id = ''t1'', is_valid = JBool True,
       ai_score = 0.85, feedback = JString ''ok'', model_used = ''claude-3-5-sonnet-20241022'',
       verification_timestamp = 101, execution_time_ms = 1500 \<rparr>"

definition ex_fx_down :: effects where
  "ex_fx_down = \<lparr> getenv_CLAUDE_API_KEY = Some ''sk-test'',
       api_outcome = Inl (Exn APIError ''Connection error.'' None),
       time_start = 100, time_result = 101, time_end = 101.5 \<rparr>"

definition ex_down_error :: exn where
  "ex_down_error = Exn VerificationError ''Verification failed: Connection error.''
                     (Some (Exn APIError ''Connection error.'' None))"

definition ex_fx_wild :: effects where
  "ex_fx_wild = \<lparr> getenv_CLAUDE_API_KEY = Some ''sk-test'',
       api_outcome = Inr [TextBlock ''{\"is_valid\": true, \"score\": 5, \"feedback\": \"great\"}''],
       time_start = 100, time_result = 101, time_end = 101.5 \<rparr>"

definition ex_vr_wild :: VerificationResult where
  "ex_vr_wild = \<lparr> submission_id = ''s1'', task_id = ''t1'', is_valid = JBool True,
       ai_score = 5, feedback = JString ''great'', model_used = ''claude-3-5-sonnet-20241022'',
       verification_timestamp = 101, execution_time_ms = 1500 \<rparr>"

definition ex_app_task :: app_task where
  "ex_app_task = \<lparr> at_id = ''t1'', at_task_type = ''classification'',
       at_reward_per_submission = 10,
       at_verification_criteria = JObject [(''correct_answer'', JString ''dogs'')],
       at_instructions = JObject [(''prompt'', JString ''Is this text about dogs or cats?'')],
       at_status = ''active'', at_current_submissions = 3 \<rparr>"

definition ex_app_state :: app_state where
  "ex_app_state = \<lparr> tasks_db = [''t1'' \<mapsto> ex_app_task], submissions_db = Map.empty \<rparr>"

definition ex_fx_slow :: effects where
  "ex_fx_slow = \<lparr> getenv_CLAUDE_API_KEY = Some ''sk-test'',
       api_outcome = Inr [TextBlock ''{\"is_valid\": true, \"score\": 0.85, \"feedback\": \"ok\"}''],
       time_start = 100, time_result = 131, time_end = 131.25 \<rparr>"

definition ex_fx_edge :: effects where
  "ex_fx_edge = \<lparr> getenv_CLAUDE_API_KEY = Some ''sk-test'',
       api_outcome = Inr [TextBlock ''{\"is_valid\": true, \"score\": 0.85, \"feedback\": \"ok\"}''],
       time_start = 100, time_result = 101, time_end = 130.0005 \<rparr>"

definition ex_mock_response :: app_response where
  "ex_mock_response = \<lparr> ar_status = ''success'', ar_submission_id = ''s1'',
       ar_is_valid = JBool True, ar_ai_score = 0.85,
       ar_feedback = JString
         ''Mock verification: Submission appears correct based on task requirements'',
       ar_model_used = ''mock-verifier'', ar_verification_time_ms = 100,
       ar_verification_type = ''mock_fallback'', ar_reward_earned = 8.5,
       ar_message = ''Submission verified successfully using mock_fallback'' \<rparr>"

section \<open>Lookups and updates on tables\<close>

lemma filter_case_find:
  "(case filter P xs of [] \<Rightarrow> a | x # _ \<Rightarrow> f x) =
   (case find P xs of None \<Rightarrow> a | Some x \<Rightarrow> f x)"
  by (induction xs) auto

lemma find_map_if:
  assumes "find P xs = Some x" and "\<And>y. P (g y) = P y"
  shows "find P (map (\<lambda>y. if P y then g y else y) xs) = Some (g x)"
  using assms by (induction xs) (auto split: if_splits)

lemma ball_map_if:
  assumes "\<forall>y \<in> set xs. Q y" and "\<And>y. P y \<Longrightarrow> Q (g y)"
  shows "\<forall>y \<in> set (map (\<lambda>y. if P y then g y else y) xs). Q y"
  using assms by (induction xs) auto

lemma ball_map_if_hit:
  assumes "\<And>y. P y \<Longrightarrow> R (g y)"
  shows "\<forall>y \<in> set (map (\<lambda>y. if P y then g y else y) xs). P y \<longrightarrow> R y"
  using assms by (induction xs) auto

lemma get_task_find: "get_task d tid = find (\<lambda>t. t_id t = tid) (tasks d)"
  unfolding get_task_def
  by (simp add: filter_case_find[where f=Some] split: option.splits)

lemma get_submission_find: "get_submission d sid = find (\<lambda>s. s_id s = sid) (submissions d)"
  unfolding get_submission_def
  by (simp add: filter_case_find[where f=Some] split: option.splits)

section \<open>Reputation\<close>

lemma users_update_user_reputation:
  "users (update_user_reputation d uid delta) =
     (case find (\<lambda>u. u_id u = uid) (users d) of
        None \<Rightarrow> users d
      | Some old \<Rightarrow>
          map (\<lambda>u. if u_id u = uid
                    then u\<lparr>u_reputation_score :=
                             max 0 (min 100 (u_reputation_score old + delta))\<rparr>
                    else u) (users d))"
  unfolding update_user_reputation_def
  by (simp add: filter_case_find Let_def split: option.splits)

lemma update_user_reputation_frame:
  "tasks (update_user_reputation d uid delta) = tasks d"
  "submissions (update_user_reputation d uid delta) = submissions d"
  "reputation_events (update_user_reputation d uid delta) = reputation_events d"
  unfolding update_user_reputation_def by (simp_all add: Let_def split: list.splits)

lemma update_user_reputation_bounded:
  assumes "\<forall>u \<in> set (users d). 0 \<le> u_reputation_score u \<and> u_reputation_score u \<le> 100"
  shows "\<forall>u \<in> set (users (update_user_reputation d uid delta)).
           0 \<le> u_reputation_score u \<and> u_reputation_score u \<le> 100"
proof (cases "find (\<lambda>u. u_id u = uid) (users d)")
  case None
  then show ?thesis using assms by (simp add: users_update_user_reputation)
next
  case (Some old)
  have "\<forall>u \<in> set (map (\<lambda>u. if u_id u = uid
            then u\<lparr>u_reputation_score := max 0 (min 100 (u_reputation_score old + delta))\<rparr>
            else u) (users d)). 0 \<le> u_reputation_score u \<and> u_reputation_score u \<le> 100"
    by (rule ball_map_if[OF assms]) simp
  then show ?thesis using Some by (simp only: users_update_user_reputation option.case)
qed

lemma users_create_reputation_event:
  "users (create_reputation_event d uuid now uid et reason delta) =
   users (update_user_reputation d uid delta)"
  unfolding create_reputation_event_def
  by (simp add: Let_def users_update_user_reputation split: option.splits)

text \<open>
  C2. A reputation update reads the score \<open>old\<close> of the user and writes
  \<open>max 0 (min 100 (old + delta))\<close>, that is \<open>old + delta\<close> clamped into \<open>[0, 100]\<close>, for any
  integer \<open>delta\<close>. Recording a reputation event changes the users table by exactly this
  update. The written score lies in \<open>[0, 100]\<close>, and if every score was in \<open>[0, 100]\<close>
  before, every score is afterwards.
\<close>

theorem reputation_update_clamps:
  assumes "find (\<lambda>u. u_id u = uid) (users d) = Some old"
  shows "find (\<lambda>u. u_id u = uid) (users (update_user_reputation d uid delta)) =
           Some (old\<lparr>u_reputation_score := max 0 (min 100 (u_reputation_score old + delta))\<rparr>)
       \<and> users (create_reputation_event d uuid now uid et reason delta) =
           users (update_user_reputation d uid delta)
       \<and> (\<forall>u \<in> set (users (update_user_reputation d uid delta)).
             u_id u = uid \<longrightarrow> 0 \<le> u_reputation_score u \<and> u_reputation_score u \<le> 100)
       \<and> ((\<forall>u \<in> set (users d). 0 \<le> u_reputation_score u \<and> u_reputation_score u \<le> 100) \<longrightarrow>
            (\<forall>u \<in> set (users (update_user_reputation d uid delta)).
               0 \<le> u_reputation_score u \<and> u_reputation_score u \<le> 100))"
proof (intro conjI)
  show "find (\<lambda>u. u_id u = uid) (users (update_user_reputation d uid delta)) =
          Some (old\<lparr>u_reputation_score := max 0 (min 100 (u_reputation_score old + delta))\<rparr>)"
    using assms
      find_map_if[OF assms, where g="\<lambda>u. u\<lparr>u_reputation_score :=
                                      max 0 (min 100 (u_reputation_score old + delta))\<rparr>"]
    by (simp add: users_update_user_reputation)
  show "users (create_reputation_event d uuid now uid et reason delta) =
          users (update_user_reputation d uid delta)"
    by (rule users_create_reputation_event)
  show "\<forall>u \<in> set (users (update_user_reputation d uid delta)).
          u_id u = uid \<longrightarrow> 0 \<le> u_reputation_score u \<and> u_reputation_score u \<le> 100"
  proof -
    have "\<forall>u \<in> set (map (\<lambda>u. if u_id u = uid
            then u\<lparr>u_reputation_score := max 0 (min 100 (u_reputation_score old + delta))\<rparr>
            else u) (users d)).
            u_id u = uid \<longrightarrow> 0 \<le> u_reputation_score u \<and> u_reputation_score u \<le> 100"
      by (rule ball_map_if_hit) simp
    then show ?thesis using assms by (simp only: users_update_user_reputation option.case)
  qed
  show "(\<forall>u \<in> set (users d). 0 \<le> u_reputation_score u \<and> u_reputation_score u \<le> 100) \<longrightarrow>
          (\<forall>u \<in> set (users (update_user_reputation d uid delta)).
             0 \<le> u_reputation_score u \<and> u_reputation_score u \<le> 100)"
    using update_user_reputation_bounded by blast
qed

text \<open>The two worked cases: 98 and \<open>+5\<close> gives 100, 1 and \<open>-2\<close> gives 0.\<close>

theorem reputation_update_clamps_witness:
  "find (\<lambda>u. u_id u = ''u1'') (users ex_db) = Some ex_user98
   \<and> find (\<lambda>u. u_id u = ''u1'') (users (update_user_reputation ex_db ''u1'' 5)) =
       Some (ex_user98\<lparr>u_reputation_score := 100\<rparr>)
   \<and> find (\<lambda>u. u_id u = ''u2'') (users ex_db) = Some ex_user1
   \<and> find (\<lambda>u. u_id u = ''u2'') (users (update_user_reputation ex_db ''u2'' (- 2))) =
       Some (ex_user1\<lparr>u_reputation_score := 0\<rparr>)
   \<and> map u_reputation_score (users ex_db) = [98, 1]
   \<and> map u_reputation_score (users (update_user_reputation ex_db ''u1'' 5)) = [100, 1]
   \<and> map u_reputation_score (users (update_user_reputation ex_db ''u2'' (- 2))) = [98, 0]"
proof -
  have h1: "find (\<lambda>u. u_id u = ''u1'') (users ex_db) = Some ex_user98"
    by (simp add: ex_db_def ex_user98_def)
  have h2: "find (\<lambda>u. u_id u = ''u2'') (users ex_db) = Some ex_user1"
    by (simp add: ex_db_def ex_user98_def ex_user1_def)
  have h3: "map u_reputation_score (users ex_db) = [98, 1]"
    by (simp add: ex_db_def ex_user98_def ex_user1_def)
  have s1: "max 0 (min 100 (u_reputation_score ex_user98 + 5)) = 100"
    by (simp add: ex_user98_def)
  have s2: "max 0 (min 100 (u_reputation_score ex_user1 + (- 2))) = 0"
    by (simp add: ex_user1_def)
  note t1 = reputation_update_clamps[OF h1, of 5 "''e1''" "''now''" "''submission_accepted''" JNull]
  note t2 = reputation_update_clamps[OF h2, of "- 2" "''e1''" "''now''" "''submission_rejected''" JNull]
  have a: "find (\<lambda>u. u_id u = ''u1'') (users (update_user_reputation ex_db ''u1'' 5)) =
       Some (ex_user98\<lparr>u_reputation_score := 100\<rparr>)"
    using t1[THEN conjunct1] unfolding s1 .
  have b: "find (\<lambda>u. u_id u = ''u2'') (users (update_user_reputation ex_db ''u2'' (- 2))) =
       Some (ex_user1\<lparr>u_reputation_score := 0\<rparr>)"
    using t2[THEN conjunct1] unfolding s2 .
  have c: "map u_reputation_score (users (update_user_reputation ex_db ''u1'' 5)) = [100, 1]"
    unfolding users_update_user_reputation h1 option.case s1
    by (simp add: ex_db_def ex_user98_def ex_user1_def)
  have d: "map u_reputation_score (users (update_user_reputation ex_db ''u2'' (- 2))) = [98, 0]"
    unfolding users_update_user_reputation h2 option.case s2
    by (simp add: ex_db_def ex_user98_def ex_user1_def)
  from h1 a h2 b h3 c d show ?thesis by (intro conjI)
qed

section \<open>Users\<close>

lemma get_user_by_wallet_find:
  "get_user_by_wallet d w = find (\<lambda>u. u_wallet_address u = w) (users d)"
  unfolding get_user_by_wallet_def
  by (simp add: filter_case_find[where f=Some] split: option.splits)

lemma get_or_create_user_find:
  "get_or_create_user d uuid now w un =
     (case find (\<lambda>u. u_wallet_address u = w) (users d) of
        Some u \<Rightarrow> (d, u)
      | None \<Rightarrow>
          (let user_data = \<lparr> u_id = uuid, u_wallet_address = w,
                 u_username = (case un of
                                 None \<Rightarrow> ''miner_'' @ take 8 w
                               | Some n \<Rightarrow> if n = [] then ''miner_'' @ take 8 w else n),
                 u_reputation_score = 50, u_total_tasks_completed = 0,
                 u_total_rewards_earned = 0, u_created_at = now \<rparr>
           in (d\<lparr>users := users d @ [user_data]\<rparr>, user_data)))"
  unfolding get_or_create_user_def
  by (simp add: filter_case_find[where f="\<lambda>u. (d, u)"] Let_def split: option.splits)

lemma get_or_create_user_frame:
  "tasks (fst (get_or_create_user d uuid now w un)) = tasks d"
  "submissions (fst (get_or_create_user d uuid now w un)) = submissions d"
  "reputation_events (fst (get_or_create_user d uuid now w un)) = reputation_events d"
  by (simp_all add: get_or_create_user_find Let_def split: option.splits)

lemma find_append_new:
  "find P xs = None \<Longrightarrow> P x \<Longrightarrow> find P (xs @ [x]) = Some x"
  by (induction xs) (auto split: if_splits)

text \<open>
  C10. For a wallet address that no user row has, \<open>get_or_create_user\<close> appends one row
  and returns it: reputation score 50, no tasks completed, no rewards earned; the new row
  is the one the wallet now resolves to. For a wallet address that a row has, it returns
  the first such row and leaves the store as it was.
\<close>

theorem get_or_create_user_default_50:
  "(get_user_by_wallet d w = None \<longrightarrow>
      users (fst (get_or_create_user d uuid now w un)) =
        users d @ [snd (get_or_create_user d uuid now w un)]
      \<and> get_user_by_wallet (fst (get_or_create_user d uuid now w un)) w =
          Some (snd (get_or_create_user d uuid now w un))
      \<and> u_reputation_score (snd (get_or_create_user d uuid now w un)) = 50
      \<and> u_total_tasks_completed (snd (get_or_create_user d uuid now w un)) = 0
      \<and> u_total_rewards_earned (snd (get_or_create_user d uuid now w un)) = 0
      \<and> u_wallet_address (snd (get_or_create_user d uuid now w un)) = w
      \<and> u_id (snd (get_or_create_user d uuid now w un)) = uuid)
   \<and> (\<forall>u. get_user_by_wallet d w = Some u \<longrightarrow>
          get_or_create_user d uuid now w un = (d, u))"
proof (intro conjI impI allI)
  fix u assume "get_user_by_wallet d w = Some u"
  then show "get_or_create_user d uuid now w un = (d, u)"
    by (simp add: get_or_create_user_find get_user_by_wallet_find)
next
  assume n: "get_user_by_wallet d w = None"
  then have f: "find (\<lambda>u. u_wallet_address u = w) (users d) = None"
    by (simp add: get_user_by_wallet_find)
  show "users (fst (get_or_create_user d uuid now w un)) =
        users d @ [snd (get_or_create_user d uuid now w un)]"
    using f by (simp add: get_or_create_user_find Let_def)
  show "get_user_by_wallet (fst (get_or_create_user d uuid now w un)) w =
          Some (snd (get_or_create_user d uuid now w un))"
    using f by (simp add: get_or_create_user_find Let_def get_user_by_wallet_find find_append_new)
  show "u_reputation_score (snd (get_or_create_user d uuid now w un)) = 50"
    using f by (simp add: get_or_create_user_find Let_def)
  show "u_total_tasks_completed (snd (get_or_create_user d uuid now w un)) = 0"
    using f by (simp add: get_or_create_user_find Let_def)
  show "u_total_rewards_earned (snd (get_or_create_user d uuid now w un)) = 0"
    using f by (simp add: get_or_create_user_find Let_def)
  show "u_wallet_address (snd (get_or_create_user d uuid now w un)) = w"
    using f by (simp add: get_or_create_user_find Let_def)
  show "u_id (snd (get_or_create_user d uuid now w un)) = uuid"
    using f by (simp add: get_or_create_user_find Let_def)
qed

text \<open>A wallet the example store does not know, and one it knows.\<close>

theorem get_or_create_user_default_50_witness:
  "get_user_by_wallet ex_db ''0x3333333333333333333333333333333333333333'' = None
   \<and> u_reputation_score (snd (get_or_create_user ex_db ''u3'' ''2024-01-03T00:00:00''
         ''0x3333333333333333333333333333333333333333'' None)) = 50
   \<and> u_total_tasks_completed (snd (get_or_create_user ex_db ''u3'' ''2024-01-03T00:00:00''
         ''0x3333333333333333333333333333333333333333'' None)) = 0
   \<and> u_total_rewards_earned (snd (get_or_create_user ex_db ''u3'' ''2024-01-03T00:00:00''
         ''0x3333333333333333333333333333333333333333'' None)) = 0
   \<and> get_user_by_wallet ex_db ''0x1111111111111111111111111111111111111111'' = Some ex_user98
   \<and> get_or_create_user ex_db ''u3'' ''2024-01-03T00:00:00''
         ''0x1111111111111111111111111111111111111111'' None = (ex_db, ex_user98)"
proof -
  have n: "get_user_by_wallet ex_db ''0x3333333333333333333333333333333333333333'' = None"
    by (simp add: get_user_by_wallet_def ex_db_def ex_user98_def ex_user1_def)
  have s: "get_user_by_wallet ex_db ''0x1111111111111111111111111111111111111111'' = Some ex_user98"
    by (simp add: get_user_by_wallet_def ex_db_def ex_user98_def ex_user1_def)
  note t1 = get_or_create_user_default_50[of ex_db "''0x3333333333333333333333333333333333333333''"
              "''u3''" "''2024-01-03T00:00:00''" None, THEN conjunct1, rule_format, OF n]
  note t2 = get_or_create_user_default_50[of ex_db "''0x1111111111111111111111111111111111111111''"
              "''u3''" "''2024-01-03T00:00:00''" None, THEN conjunct2, rule_format, OF s]
  from n s t1 t2 show ?thesis by blast
qed

section \<open>The submission endpoint of main.py\<close>

lemma create_submission_simps:
  "snd (create_submission d uuid now tid uid data) =
     \<lparr> s_id = uuid, s_task_id = tid, s_user_id = uid, s_submission_data = data,
       s_ai_score = None, s_is_valid = None, s_feedback = None, s_reward_earned = 0,
       s_is_paid = False, s_created_at = now \<rparr>"
  "submissions (fst (create_submission d uuid now tid uid data)) =
     submissions d @ [snd (create_submission d uuid now tid uid data)]"
  "tasks (fst (create_submission d uuid now tid uid data)) = tasks d"
  "users (fst (create_submission d uuid now tid uid data)) = users d"
  "reputation_events (fst (create_submission d uuid now tid uid data)) = reputation_events d"
  by (simp_all add: create_submission_def Let_def)

lemma update_submission_verification_simps:
  "submissions (update_submission_verification d sid sc v fb rw) =
     map (\<lambda>s. if s_id s = sid
               then s\<lparr>s_ai_score := Some sc, s_is_valid := Some v,
                      s_feedback := Some fb, s_reward_earned := rw\<rparr>
               else s) (submissions d)"
  "tasks (update_submission_verification d sid sc v fb rw) = tasks d"
  "users (update_submission_verification d sid sc v fb rw) = users d"
  "reputation_events (update_submission_verification d sid sc v fb rw) = reputation_events d"
  by (simp_all add: update_submission_verification_def)

lemma create_reputation_event_simps:
  "reputation_events (create_reputation_event d uuid now uid et reason delta) =
     reputation_events d @
       [\<lparr> e_id = uuid, e_user_id = uid, e_event_type = et, e_reason = reason,
          e_delta = delta, e_created_at = now \<rparr>]"
  "tasks (create_reputation_event d uuid now uid et reason delta) = tasks d"
  "submissions (create_reputation_event d uuid now uid et reason delta) = submissions d"
  by (simp_all add: create_reputation_event_def Let_def update_user_reputation_frame)

lemma update_task_submission_count_simps:
  "tasks (update_task_submission_count d tid) =
     (case find (\<lambda>t. t_id t = tid) (tasks d) of
        None \<Rightarrow> tasks d
      | Some task \<Rightarrow>
          map (\<lambda>t. if t_id t = tid
                    then t\<lparr>t_current_submissions := t_current_submissions task + 1\<rparr>
                    else t) (tasks d))"
  "users (update_task_submission_count d tid) = users d"
  "submissions (update_task_submission_count d tid) = submissions d"
  "reputation_events (update_task_submission_count d tid) = reputation_events d"
  unfolding update_task_submission_count_def
  by (simp_all add: filter_case_find Let_def split: option.splits list.splits)

lemma create_submission_sid:
  "s_id (snd (create_submission d uuid now tid uid data)) = uuid"
  by (simp add: create_submission_def Let_def)

text \<open>The two ways through the endpoint once the task is found.\<close>

lemma submit_inference_verified:
  assumes "get_task d tid = Some task"
    and "(case TaskType_of (t_task_type task) of
            Inl e \<Rightarrow> Inl e
          | Inr task_type \<Rightarrow> verify_submission lib fx (uuid_submission fr) tid None) = Inr vr"
  shows "submit_inference lib fx fr d tid request =
     (let gu = get_or_create_user d (uuid_user fr) (now_user fr) (miner_wallet request) None;
          d2 = fst (create_submission (fst gu) (uuid_submission fr) (now_submission fr) tid
                      (u_id (snd gu)) (submission_data request));
          d3 = update_submission_verification d2 (uuid_submission fr) (ai_score vr)
                 (is_valid vr) (feedback vr) (t_reward_per_submission task * ai_score vr);
          d4 = create_reputation_event d3 (uuid_event fr) (now_event fr) (u_id (snd gu))
                 (if truthy (is_valid vr) then ''submission_accepted''
                  else ''submission_rejected'')
                 (feedback vr) (if truthy (is_valid vr) then 5 else - 2)
      in (update_task_submission_count d4 tid,
          Inr \<lparr> resp_status = ''success'', resp_submission_id = uuid_submission fr,
                resp_verification = vr,
                resp_reward_earned = t_reward_per_submission task * ai_score vr \<rparr>))"
  unfolding submit_inference_def Let_def case_prod_beta create_submission_sid
  using assms by simp

lemma submit_inference_failed:
  assumes "get_task d tid = Some task"
    and "(case TaskType_of (t_task_type task) of
            Inl e \<Rightarrow> Inl e
          | Inr task_type \<Rightarrow> verify_submission lib fx (uuid_submission fr) tid None) = Inl e"
  shows "submit_inference lib fx fr d tid request =
     (let gu = get_or_create_user d (uuid_user fr) (now_user fr) (miner_wallet request) None;
          d2 = fst (create_submission (fst gu) (uuid_submission fr) (now_submission fr) tid
                      (u_id (snd gu)) (submission_data request));
          d3 = update_submission_verification d2 (uuid_submission fr) 0 (JBool False)
                 (JString (''Verification error: '' @ str_exn e)) 0;
          d4 = create_reputation_event d3 (uuid_event fr) (now_event fr) (u_id (snd gu))
                 ''submission_rejected'' (JString ''Verification failed'') (- 1)
      in (d4, Inl (HTTPException 500 (''Verification failed: '' @ str_exn e))))"
  unfolding submit_inference_def Let_def case_prod_beta create_submission_sid
  using assms by simp

section \<open>Evaluating the examples\<close>

lemma ex_decode_ok:
  "json_decode ''{\"is_valid\": true, \"score\": 0.85, \"feedback\": \"ok\"}'' =
     Some (JObject [(''is_valid'', JBool True), (''score'', JFloat 0.85),
                    (''feedback'', JString ''ok'')])"
  by code_simp

lemma ex_parse_ok:
  "parse_claude_response std_lib 101
     ''{\"is_valid\": true, \"score\": 0.85, \"feedback\": \"ok\"}'' ''s1'' ''t1'' =
   Inr (ex_vr_ok\<lparr>execution_time_ms := 0\<rparr>)"
  by (simp add: parse_claude_response_def std_lib_def ex_decode_ok make_result_def py_get_def
        dict_get_def py_float_def ex_vr_ok_def)

lemma ex_verify_ok: "verify_submission std_lib ex_fx_ok ''s1'' ''t1'' None = Inr ex_vr_ok"
  by (simp add: verify_submission_def ClaudeVerificationClient_init_def
        client_verify_submission_def verify_body_def first_text_def ex_fx_ok_def ex_parse_ok
        py_int_def Let_def ex_vr_ok_def)

lemma ex_verify_down: "verify_submission std_lib ex_fx_down ''s1'' ''t1'' None = Inl ex_down_error"
  by (simp add: verify_submission_def ClaudeVerificationClient_init_def
        client_verify_submission_def verify_body_def ex_fx_down_def ex_down_error_def str_exn_def)

lemma ex_get_task: "get_task ex_db ''t1'' = Some ex_task"
  by (simp add: get_task_def ex_db_def ex_task_def)

lemma ex_guarded_ok: "guarded_call std_lib ex_fx_ok ex_fresh ex_task ''t1'' = Inr ex_vr_ok"
  by (simp add: TaskType_of_def ex_task_def ex_fresh_def ex_verify_ok)

lemma ex_guarded_down: "guarded_call std_lib ex_fx_down ex_fresh ex_task ''t1'' = Inl ex_down_error"
  by (simp add: TaskType_of_def ex_task_def ex_fresh_def ex_verify_down)

lemma ex_request_user: "request_user ex_db ex_fresh ex_request = ex_user98"
  by (simp add: get_or_create_user_find ex_db_def ex_request_def ex_user98_def)

section \<open>Reputation events\<close>

lemma submit_inference_events_verified:
  assumes "get_task d tid = Some task" and "guarded_call lib fx fr task tid = Inr vr"
  shows "reputation_events (fst (submit_inference lib fx fr d tid request)) =
           reputation_events d @
             [\<lparr> e_id = uuid_event fr, e_user_id = u_id (request_user d fr request),
                e_event_type = (if truthy (is_valid vr) then ''submission_accepted''
                                else ''submission_rejected''),
                e_reason = feedback vr,
                e_delta = (if truthy (is_valid vr) then 5 else - 2),
                e_created_at = now_event fr \<rparr>]"
  by (simp only: submit_inference_verified[OF assms] Let_def fst_conv
        update_task_submission_count_simps create_reputation_event_simps
        update_submission_verification_simps create_submission_simps get_or_create_user_frame)

lemma submit_inference_events_failed:
  assumes "get_task d tid = Some task" and "guarded_call lib fx fr task tid = Inl e"
  shows "reputation_events (fst (submit_inference lib fx fr d tid request)) =
           reputation_events d @
             [\<lparr> e_id = uuid_event fr, e_user_id = u_id (request_user d fr request),
                e_event_type = ''submission_rejected'',
                e_reason = JString ''Verification failed'',
                e_delta = - 1,
                e_created_at = now_event fr \<rparr>]"
  by (simp only: submit_inference_failed[OF assms] Let_def fst_conv
        create_reputation_event_simps
        update_submission_verification_simps create_submission_simps get_or_create_user_frame)


text \<open>
  C7. Once the task is found, the endpoint appends exactly one reputation event, whatever
  the outcome of the guarded verification call. If the call returns a result, the event
  has delta \<open>+5\<close> and type \<open>submission_accepted\<close> when \<open>is_valid\<close> is true, delta \<open>-2\<close> and
  type \<open>submission_rejected\<close> when it is false, and the verdict's feedback as its reason.
  If the call raises, the event has delta \<open>-1\<close>, type \<open>submission_rejected\<close> and the reason
  \<open>Verification failed\<close>. The delta in the event is the one requested, for every store:
  the clamping happens only in the user's score.
\<close>

theorem one_reputation_event_per_outcome:
  assumes "get_task d tid = Some task"
  shows "(\<forall>vr. guarded_call lib fx fr task tid = Inr vr \<longrightarrow>
            reputation_events (fst (submit_inference lib fx fr d tid request)) =
              reputation_events d @
                [\<lparr> e_id = uuid_event fr, e_user_id = u_id (request_user d fr request),
                   e_event_type = (if truthy (is_valid vr) then ''submission_accepted''
                                   else ''submission_rejected''),
                   e_reason = feedback vr,
                   e_delta = (if truthy (is_valid vr) then 5 else - 2),
                   e_created_at = now_event fr \<rparr>])
       \<and> (\<forall>e. guarded_call lib fx fr task tid = Inl e \<longrightarrow>
            reputation_events (fst (submit_inference lib fx fr d tid request)) =
              reputation_events d @
                [\<lparr> e_id = uuid_event fr, e_user_id = u_id (request_user d fr request),
                   e_event_type = ''submission_rejected'',
                   e_reason = JString ''Verification failed'',
                   e_delta = - 1,
                   e_created_at = now_event fr \<rparr>])
       \<and> truthy (JBool True) \<and> \<not> truthy (JBool False)"
proof (intro conjI allI impI)
  fix vr assume "guarded_call lib fx fr task tid = Inr vr"
  from submit_inference_events_verified[OF assms this]
  show "reputation_events (fst (submit_inference lib fx fr d tid request)) =
              reputation_events d @
                [\<lparr> e_id = uuid_event fr, e_user_id = u_id (request_user d fr request),
                   e_event_type = (if truthy (is_valid vr) then ''submission_accepted''
                                   else ''submission_rejected''),
                   e_reason = feedback vr,
                   e_delta = (if truthy (is_valid vr) then 5 else - 2),
                   e_created_at = now_event fr \<rparr>]" .
next
  fix e assume "guarded_call lib fx fr task tid = Inl e"
  from submit_inference_events_failed[OF assms this]
  show "reputation_events (fst (submit_inference lib fx fr d tid request)) =
              reputation_events d @
                [\<lparr> e_id = uuid_event fr, e_user_id = u_id (request_user d fr request),
                   e_event_type = ''submission_rejected'',
                   e_reason = JString ''Verification failed'',
                   e_delta = - 1,
                   e_created_at = now_event fr \<rparr>]" .
qed simp_all

lemma submit_inference_users_verified:
  assumes "get_task d tid = Some task" and "guarded_call lib fx fr task tid = Inr vr"
  shows "users (fst (submit_inference lib fx fr d tid request)) =
           users (update_user_reputation
                    (fst (get_or_create_user d (uuid_user fr) (now_user fr)
                            (miner_wallet request) None))
                    (u_id (request_user d fr request))
                    (if truthy (is_valid vr) then 5 else - 2))"
  by (simp only: submit_inference_verified[OF assms] Let_def fst_conv
        update_task_submission_count_simps users_create_reputation_event
        users_update_user_reputation
        update_submission_verification_simps create_submission_simps)

text \<open>
  A miner at score 98 is accepted: the event records \<open>+5\<close> while the score goes to 100.
  The same miner when the judge is unreachable: the event records \<open>-1\<close>.
\<close>

theorem one_reputation_event_per_outcome_witness:
  "get_task ex_db ''t1'' = Some ex_task
   \<and> guarded_call std_lib ex_fx_ok ex_fresh ex_task ''t1'' = Inr ex_vr_ok
   \<and> reputation_events (fst (submit_inference std_lib ex_fx_ok ex_fresh ex_db ''t1'' ex_request)) =
        [\<lparr> e_id = ''e1'', e_user_id = ''u1'', e_event_type = ''submission_accepted'',
           e_reason = JString ''ok'', e_delta = 5, e_created_at = ''2024-02-01T10:00:03'' \<rparr>]
   \<and> find (\<lambda>u. u_id u = ''u1'')
        (users (fst (submit_inference std_lib ex_fx_ok ex_fresh ex_db ''t1'' ex_request))) =
        Some (ex_user98\<lparr>u_reputation_score := 100\<rparr>)
   \<and> guarded_call std_lib ex_fx_down ex_fresh ex_task ''t1'' = Inl ex_down_error
   \<and> reputation_events (fst (submit_inference std_lib ex_fx_down ex_fresh ex_db ''t1'' ex_request)) =
        [\<lparr> e_id = ''e1'', e_user_id = ''u1'', e_event_type = ''submission_rejected'',
           e_reason = JString ''Verification failed'', e_delta = - 1,
           e_created_at = ''2024-02-01T10:00:03'' \<rparr>]"
proof -
  note t = one_reputation_event_per_outcome[OF ex_get_task, of _ _ ex_fresh ex_request]
  have a: "reputation_events (fst (submit_inference std_lib ex_fx_ok ex_fresh ex_db ''t1'' ex_request)) =
        [\<lparr> e_id = ''e1'', e_user_id = ''u1'', e_event_type = ''submission_accepted'',
           e_reason = JString ''ok'', e_delta = 5, e_created_at = ''2024-02-01T10:00:03'' \<rparr>]"
    using t[of std_lib ex_fx_ok, THEN conjunct1, rule_format, OF ex_guarded_ok]
    by (simp add: ex_request_user) (simp add: ex_db_def ex_fresh_def ex_vr_ok_def ex_user98_def)
  have b: "reputation_events (fst (submit_inference std_lib ex_fx_down ex_fresh ex_db ''t1'' ex_request)) =
        [\<lparr> e_id = ''e1'', e_user_id = ''u1'', e_event_type = ''submission_rejected'',
           e_reason = JString ''Verification failed'', e_delta = - 1,
           e_created_at = ''2024-02-01T10:00:03'' \<rparr>]"
    using t[of std_lib ex_fx_down, THEN conjunct2, THEN conjunct1, rule_format, OF ex_guarded_down]
    by (simp add: ex_request_user) (simp add: ex_db_def ex_fresh_def ex_user98_def)
  have g: "get_or_create_user ex_db (uuid_user ex_fresh) (now_user ex_fresh)
             (miner_wallet ex_request) None = (ex_db, ex_user98)"
    by (simp add: get_or_create_user_find ex_db_def ex_request_def ex_user98_def)
  have u: "find (\<lambda>u. u_id u = ''u1'') (users ex_db) = Some ex_user98"
    by (simp add: ex_db_def ex_user98_def)
  have s1: "max 0 (min 100 (u_reputation_score ex_user98 + 5)) = 100"
    by (simp add: ex_user98_def)
  have i: "u_id ex_user98 = ''u1''" by (simp add: ex_user98_def)
  have v: "truthy (is_valid ex_vr_ok)" by (simp add: ex_vr_ok_def)
  have c: "find (\<lambda>u. u_id u = ''u1'')
        (users (fst (submit_inference std_lib ex_fx_ok ex_fresh ex_db ''t1'' ex_request))) =
        Some (ex_user98\<lparr>u_reputation_score := 100\<rparr>)"
  proof -
    have "users (fst (submit_inference std_lib ex_fx_ok ex_fresh ex_db ''t1'' ex_request)) =
            users (update_user_reputation ex_db ''u1'' 5)"
      unfolding submit_inference_users_verified[OF ex_get_task ex_guarded_ok] g fst_conv snd_conv i
      using v by simp
    also have "\<dots> = map (\<lambda>u. if u_id u = ''u1'' then u\<lparr>u_reputation_score := 100\<rparr> else u)
                         (users ex_db)"
      by (simp only: users_update_user_reputation u option.case s1)
    finally show ?thesis
      using find_map_if[OF u, where g="\<lambda>u. u\<lparr>u_reputation_score := 100\<rparr>"] by simp
  qed
  from ex_get_task ex_guarded_ok a c ex_guarded_down b show ?thesis by (intro conjI)
qed

section \<open>Submission count and the failed submission\<close>

lemma find_map_if_exists:
  assumes "\<exists>x \<in> set xs. P x" and "\<And>y. P (g y) = P y"
  shows "find P (map (\<lambda>y. if P y then g y else y) xs) \<noteq> None"
  using assms by (induction xs) (auto split: if_splits)

lemma submit_inference_tasks_verified:
  assumes "get_task d tid = Some task" and "guarded_call lib fx fr task tid = Inr vr"
  shows "tasks (fst (submit_inference lib fx fr d tid request)) =
           map (\<lambda>t. if t_id t = tid
                     then t\<lparr>t_current_submissions := t_current_submissions task + 1\<rparr>
                     else t) (tasks d)"
proof -
  have f: "find (\<lambda>t. t_id t = tid) (tasks d) = Some task"
    using assms(1) by (simp add: get_task_find)
  show ?thesis
    by (simp only: submit_inference_verified[OF assms] Let_def fst_conv
          update_task_submission_count_simps create_reputation_event_simps
          update_submission_verification_simps create_submission_simps
          get_or_create_user_frame f option.case)
qed

lemma submit_inference_tasks_failed:
  assumes "get_task d tid = Some task" and "guarded_call lib fx fr task tid = Inl e"
  shows "tasks (fst (submit_inference lib fx fr d tid request)) = tasks d"
  by (simp only: submit_inference_failed[OF assms] Let_def fst_conv
        create_reputation_event_simps update_submission_verification_simps
        create_submission_simps get_or_create_user_frame)

lemma submit_inference_submissions_verified:
  assumes "get_task d tid = Some task" and "guarded_call lib fx fr task tid = Inr vr"
  shows "submissions (fst (submit_inference lib fx fr d tid request)) =
           map (\<lambda>s. if s_id s = uuid_submission fr
                     then s\<lparr>s_ai_score := Some (ai_score vr), s_is_valid := Some (is_valid vr),
                            s_feedback := Some (feedback vr),
                            s_reward_earned := t_reward_per_submission task * ai_score vr\<rparr>
                     else s)
               (submissions d @
                  [\<lparr> s_id = uuid_submission fr, s_task_id = tid,
                     s_user_id = u_id (request_user d fr request),
                     s_submission_data = submission_data request, s_ai_score = None,
                     s_is_valid = None, s_feedback = None, s_reward_earned = 0,
                     s_is_paid = False, s_created_at = now_submission fr \<rparr>])"
  by (simp only: submit_inference_verified[OF assms] Let_def fst_conv
        update_task_submission_count_simps create_reputation_event_simps
        update_submission_verification_simps create_submission_simps
        get_or_create_user_frame)

lemma submit_inference_submissions_failed:
  assumes "get_task d tid = Some task" and "guarded_call lib fx fr task tid = Inl e"
  shows "submissions (fst (submit_inference lib fx fr d tid request)) =
           map (\<lambda>s. if s_id s = uuid_submission fr
                     then s\<lparr>s_ai_score := Some 0, s_is_valid := Some (JBool False),
                            s_feedback := Some (JString (''Verification error: '' @ str_exn e)),
                            s_reward_earned := 0\<rparr>
                     else s)
               (submissions d @
                  [\<lparr> s_id = uuid_submission fr, s_task_id = tid,
                     s_user_id = u_id (request_user d fr request),
                     s_submission_data = submission_data request, s_ai_score = None,
                     s_is_valid = None, s_feedback = None, s_reward_earned = 0,
                     s_is_paid = False, s_created_at = now_submission fr \<rparr>])"
  by (simp only: submit_inference_failed[OF assms] Let_def fst_conv
        create_reputation_event_simps update_submission_verification_simps
        create_submission_simps get_or_create_user_frame)

lemma submission_row_present:
  assumes "submissions d' = map (\<lambda>s. if s_id s = sid then g s else s) (xs @ [new])"
    and "s_id new = sid" and "\<And>y. s_id (g y) = s_id y"
  shows "get_submission d' sid \<noteq> None"
proof -
  have "\<exists>x \<in> set (xs @ [new]). s_id x = sid" using assms(2) by simp
  from find_map_if_exists[where P="\<lambda>s. s_id s = sid", OF this, of g] assms(3)
  show ?thesis by (simp add: get_submission_find assms(1))
qed

text \<open>
  C8. Once the task is found: if the guarded verification call returns a result, the
  task's \<open>current_submissions\<close> is one more than before; if it raises an error \<open>e\<close>, the
  tasks table is unchanged, and the submission row of the request is in the store with
  \<open>ai_score = 0.0\<close>, \<open>is_valid = False\<close>, \<open>reward_earned = 0.0\<close> and the error message as
  feedback, in the form \<open>Verification error: \<close> followed by \<open>str(e)\<close>.
\<close>

theorem submission_count_and_failed_submission:
  assumes "get_task d tid = Some task"
  shows "(\<forall>vr. guarded_call lib fx fr task tid = Inr vr \<longrightarrow>
            get_task (fst (submit_inference lib fx fr d tid request)) tid =
              Some (task\<lparr>t_current_submissions := t_current_submissions task + 1\<rparr>))
       \<and> (\<forall>e. guarded_call lib fx fr task tid = Inl e \<longrightarrow>
            tasks (fst (submit_inference lib fx fr d tid request)) = tasks d
            \<and> get_submission (fst (submit_inference lib fx fr d tid request))
                 (uuid_submission fr) \<noteq> None
            \<and> (\<forall>s \<in> set (submissions (fst (submit_inference lib fx fr d tid request))).
                  s_id s = uuid_submission fr \<longrightarrow>
                    s_ai_score s = Some 0 \<and> s_is_valid s = Some (JBool False)
                    \<and> s_reward_earned s = 0
                    \<and> s_feedback s = Some (JString (''Verification error: '' @ str_exn e))))"
proof (intro conjI allI impI)
  fix vr assume ok: "guarded_call lib fx fr task tid = Inr vr"
  have f: "find (\<lambda>t. t_id t = tid) (tasks d) = Some task"
    using assms by (simp add: get_task_find)
  show "get_task (fst (submit_inference lib fx fr d tid request)) tid =
          Some (task\<lparr>t_current_submissions := t_current_submissions task + 1\<rparr>)"
    unfolding get_task_find submit_inference_tasks_verified[OF assms ok]
    by (rule find_map_if[OF f]) simp
next
  fix e assume bad: "guarded_call lib fx fr task tid = Inl e"
  show "tasks (fst (submit_inference lib fx fr d tid request)) = tasks d"
    by (rule submit_inference_tasks_failed[OF assms bad])
  show "get_submission (fst (submit_inference lib fx fr d tid request)) (uuid_submission fr)
          \<noteq> None"
    by (rule submission_row_present[OF submit_inference_submissions_failed[OF assms bad]])
       simp_all
  show "\<forall>s \<in> set (submissions (fst (submit_inference lib fx fr d tid request))).
          s_id s = uuid_submission fr \<longrightarrow>
            s_ai_score s = Some 0 \<and> s_is_valid s = Some (JBool False)
            \<and> s_reward_earned s = 0
            \<and> s_feedback s = Some (JString (''Verification error: '' @ str_exn e))"
    unfolding submit_inference_submissions_failed[OF assms bad]
    by (rule ball_map_if_hit) simp
qed

text \<open>
  The example task has 3 submissions: 4 after a verified one, still 3 after a failed one,
  whose row holds the zeroed fields and the message.
\<close>

theorem submission_count_and_failed_submission_witness:
  "get_task ex_db ''t1'' = Some ex_task
   \<and> t_current_submissions ex_task = 3
   \<and> guarded_call std_lib ex_fx_ok ex_fresh ex_task ''t1'' = Inr ex_vr_ok
   \<and> get_task (fst (submit_inference std_lib ex_fx_ok ex_fresh ex_db ''t1'' ex_request)) ''t1'' =
        Some (ex_task\<lparr>t_current_submissions := 4\<rparr>)
   \<and> guarded_call std_lib ex_fx_down ex_fresh ex_task ''t1'' = Inl ex_down_error
   \<and> get_task (fst (submit_inference std_lib ex_fx_down ex_fresh ex_db ''t1'' ex_request)) ''t1'' =
        Some ex_task
   \<and> submissions (fst (submit_inference std_lib ex_fx_down ex_fresh ex_db ''t1'' ex_request)) =
        [\<lparr> s_id = ''s1'', s_task_id = ''t1'', s_user_id = ''u1'',
           s_submission_data = JObject [(''answer'', JString ''dogs'')],
           s_ai_score = Some 0, s_is_valid = Some (JBool False),
           s_feedback = Some (JString
             ''Verification error: Verification failed: Connection error.''),
           s_reward_earned = 0, s_is_paid = False, s_created_at = ''2024-02-01T10:00:01'' \<rparr>]"
proof -
  note t = submission_count_and_failed_submission[OF ex_get_task, of _ _ ex_fresh ex_request]
  have c: "t_current_submissions ex_task = 3" by (simp add: ex_task_def)
  have a: "get_task (fst (submit_inference std_lib ex_fx_ok ex_fresh ex_db ''t1'' ex_request)) ''t1'' =
        Some (ex_task\<lparr>t_current_submissions := 4\<rparr>)"
    using t[of std_lib ex_fx_ok, THEN conjunct1, rule_format, OF ex_guarded_ok] by (simp add: c)
  have b: "get_task (fst (submit_inference std_lib ex_fx_down ex_fresh ex_db ''t1'' ex_request)) ''t1'' =
        Some ex_task"
    using t[of std_lib ex_fx_down, THEN conjunct2, rule_format, OF ex_guarded_down, THEN conjunct1]
      ex_get_task
    by (simp add: get_task_find)
  have s: "submissions (fst (submit_inference std_lib ex_fx_down ex_fresh ex_db ''t1'' ex_request)) =
        [\<lparr> s_id = ''s1'', s_task_id = ''t1'', s_user_id = ''u1'',
           s_submission_data = JObject [(''answer'', JString ''dogs'')],
           s_ai_score = Some 0, s_is_valid = Some (JBool False),
           s_feedback = Some (JString
             ''Verification error: Verification failed: Connection error.''),
           s_reward_earned = 0, s_is_paid = False, s_created_at = ''2024-02-01T10:00:01'' \<rparr>]"
    unfolding submit_inference_submissions_failed[OF ex_get_task ex_guarded_down] ex_request_user
    by (simp add: ex_db_def ex_fresh_def ex_user98_def ex_request_def ex_down_error_def str_exn_def)
  from ex_get_task c ex_guarded_ok a ex_guarded_down b s show ?thesis by (intro conjI)
qed

section \<open>Reward\<close>

lemma ex_decode_wild:
  "json_decode ''{\"is_valid\": true, \"score\": 5, \"feedback\": \"great\"}'' =
     Some (JObject [(''is_valid'', JBool True), (''score'', JInt 5),
                    (''feedback'', JString ''great'')])"
  by code_simp

lemma ex_parse_wild:
  "parse_claude_response std_lib 101
     ''{\"is_valid\": true, \"score\": 5, \"feedback\": \"great\"}'' ''s1'' ''t1'' =
   Inr (ex_vr_wild\<lparr>execution_time_ms := 0\<rparr>)"
  by (simp add: parse_claude_response_def std_lib_def ex_decode_wild make_result_def py_get_def
        dict_get_def py_float_def ex_vr_wild_def)

lemma ex_verify_wild: "verify_submission std_lib ex_fx_wild ''s1'' ''t1'' None = Inr ex_vr_wild"
  by (simp add: verify_submission_def ClaudeVerificationClient_init_def
        client_verify_submission_def verify_body_def first_text_def ex_fx_wild_def ex_parse_wild
        py_int_def Let_def ex_vr_wild_def)

lemma ex_guarded_wild: "guarded_call std_lib ex_fx_wild ex_fresh ex_task ''t1'' = Inr ex_vr_wild"
  by (simp add: TaskType_of_def ex_task_def ex_fresh_def ex_verify_wild)

lemma app_verify_claude:
  assumes "(case TaskType_of (at_task_type task) of
              Inl e \<Rightarrow> Inl e
            | Inr task_type \<Rightarrow> verify_submission lib fx sid tid None) = Inr vr"
  shows "app_verify lib fx True task sid tid data = (ClaudeResult vr, ''claude_ai'')"
  using assms by (simp add: app_verify_def)

lemma app_submit_inference_response:
  assumes "tasks_db st tid = Some task"
  shows "snd (app_submit_inference lib fx ca uuid now now' st tid data) =
     (let v = app_verify lib fx ca task uuid tid data
      in Inr \<lparr> ar_status = ''success'', ar_submission_id = uuid,
               ar_is_valid = obj_is_valid (fst v), ar_ai_score = obj_ai_score (fst v),
               ar_feedback = obj_feedback (fst v), ar_model_used = obj_model_used (fst v),
               ar_verification_time_ms = obj_execution_time_ms (fst v),
               ar_verification_type = snd v,
               ar_reward_earned = at_reward_per_submission task * obj_ai_score (fst v),
               ar_message = ''Submission verified successfully using '' @ snd v \<rparr>)"
  using assms by (simp add: app_submit_inference_def Let_def case_prod_beta)

lemma app_submit_inference_stored:
  assumes "tasks_db st tid = Some task"
  shows "map_option as_reward_earned
           (submissions_db (fst (app_submit_inference lib fx ca uuid now now' st tid data)) uuid) =
         Some (Some (at_reward_per_submission task *
                     obj_ai_score (fst (app_verify lib fx ca task uuid tid data))))"
  using assms by (simp add: app_submit_inference_def Let_def case_prod_beta)

text \<open>
  C1. When the guarded verification call returns a result with score \<open>s\<close> for a task with
  rate \<open>r\<close> (\<open>reward_per_submission\<close>), the reward in the response and in the stored
  submission is \<open>r * s\<close>, for every \<open>s\<close>: nothing brings the score into \<open>[0, 1]\<close> first.
  The first part is the endpoint of main.py, the second the endpoint of app.py in live
  mode. Floats are read as the reals they denote.
\<close>

theorem reward_is_rate_times_score:
  "(get_task d tid = Some task \<and> guarded_call lib fx fr task tid = Inr vr \<longrightarrow>
      snd (submit_inference lib fx fr d tid request) =
        Inr \<lparr> resp_status = ''success'', resp_submission_id = uuid_submission fr,
              resp_verification = vr,
              resp_reward_earned = t_reward_per_submission task * ai_score vr \<rparr>
      \<and> get_submission (fst (submit_inference lib fx fr d tid request))
           (uuid_submission fr) \<noteq> None
      \<and> (\<forall>s \<in> set (submissions (fst (submit_inference lib fx fr d tid request))).
            s_id s = uuid_submission fr \<longrightarrow>
              s_ai_score s = Some (ai_score vr)
              \<and> s_reward_earned s = t_reward_per_submission task * ai_score vr))
   \<and> (tasks_db st tid = Some atask
       \<and> (case TaskType_of (at_task_type atask) of
             Inl e \<Rightarrow> Inl e
           | Inr task_type \<Rightarrow> verify_submission lib fx uuid tid None) = Inr vr' \<longrightarrow>
      (\<exists>resp. snd (app_submit_inference lib fx True uuid now now' st tid data) = Inr resp
          \<and> ar_ai_score resp = ai_score vr'
          \<and> ar_reward_earned resp = at_reward_per_submission atask * ai_score vr')
      \<and> map_option as_reward_earned
           (submissions_db (fst (app_submit_inference lib fx True uuid now now' st tid data))
              uuid) =
          Some (Some (at_reward_per_submission atask * ai_score vr')))"
proof (intro conjI impI)
  assume h: "get_task d tid = Some task \<and> guarded_call lib fx fr task tid = Inr vr"
  then have gt: "get_task d tid = Some task"
    and ok: "guarded_call lib fx fr task tid = Inr vr" by simp_all
  show "snd (submit_inference lib fx fr d tid request) =
        Inr \<lparr> resp_status = ''success'', resp_submission_id = uuid_submission fr,
              resp_verification = vr,
              resp_reward_earned = t_reward_per_submission task * ai_score vr \<rparr>"
    by (simp only: submit_inference_verified[OF gt ok] Let_def snd_conv)
  show "get_submission (fst (submit_inference lib fx fr d tid request))
           (uuid_submission fr) \<noteq> None"
    by (rule submission_row_present[OF submit_inference_submissions_verified[OF gt ok]])
       simp_all
  show "\<forall>s \<in> set (submissions (fst (submit_inference lib fx fr d tid request))).
            s_id s = uuid_submission fr \<longrightarrow>
              s_ai_score s = Some (ai_score vr)
              \<and> s_reward_earned s = t_reward_per_submission task * ai_score vr"
    unfolding submit_inference_submissions_verified[OF gt ok]
    by (rule ball_map_if_hit) simp
next
  assume h: "tasks_db st tid = Some atask
       \<and> (case TaskType_of (at_task_type atask) of
             Inl e \<Rightarrow> Inl e
           | Inr task_type \<Rightarrow> verify_submission lib fx uuid tid None) = Inr vr'"
  then have gt: "tasks_db st tid = Some atask"
    and ok: "(case TaskType_of (at_task_type atask) of
             Inl e \<Rightarrow> Inl e
           | Inr task_type \<Rightarrow> verify_submission lib fx uuid tid None) = Inr vr'"
    by simp_all
  show "\<exists>resp. snd (app_submit_inference lib fx True uuid now now' st tid data) = Inr resp
          \<and> ar_ai_score resp = ai_score vr'
          \<and> ar_reward_earned resp = at_reward_per_submission atask * ai_score vr'"
    by (simp add: app_submit_inference_response[OF gt] app_verify_claude[OF ok])
  show "map_option as_reward_earned
           (submissions_db (fst (app_submit_inference lib fx True uuid now now' st tid data))
              uuid) =
          Some (Some (at_reward_per_submission atask * ai_score vr'))"
    by (simp add: app_submit_inference_stored[OF gt] app_verify_claude[OF ok])
qed

text \<open>
  Rate 10 and score 0.85 give 8.5; rate 10 and the out-of-range score 5 give 50.
\<close>

theorem reward_is_rate_times_score_witness:
  "get_task ex_db ''t1'' = Some ex_task
   \<and> t_reward_per_submission ex_task = 10
   \<and> guarded_call std_lib ex_fx_ok ex_fresh ex_task ''t1'' = Inr ex_vr_ok
   \<and> ai_score ex_vr_ok = 0.85
   \<and> snd (submit_inference std_lib ex_fx_ok ex_fresh ex_db ''t1'' ex_request) =
        Inr \<lparr> resp_status = ''success'', resp_submission_id = ''s1'',
              resp_verification = ex_vr_ok, resp_reward_earned = 8.5 \<rparr>
   \<and> guarded_call std_lib ex_fx_wild ex_fresh ex_task ''t1'' = Inr ex_vr_wild
   \<and> ai_score ex_vr_wild = 5
   \<and> snd (submit_inference std_lib ex_fx_wild ex_fresh ex_db ''t1'' ex_request) =
        Inr \<lparr> resp_status = ''success'', resp_submission_id = ''s1'',
              resp_verification = ex_vr_wild, resp_reward_earned = 50 \<rparr>
   \<and> tasks_db ex_app_state ''t1'' = Some ex_app_task
   \<and> map_option as_reward_earned
        (submissions_db (fst (app_submit_inference std_lib ex_fx_ok True ''s1''
            ''2024-02-01T10:00:01'' ''2024-02-01T10:00:03'' ex_app_state ''t1''
            (JObject [(''answer'', JString ''dogs'')]))) ''s1'') = Some (Some 8.5)"
proof -
  have r: "t_reward_per_submission ex_task = 10" by (simp add: ex_task_def)
  have s1: "ai_score ex_vr_ok = 0.85" by (simp add: ex_vr_ok_def)
  have s2: "ai_score ex_vr_wild = 5" by (simp add: ex_vr_wild_def)
  have u: "uuid_submission ex_fresh = ''s1''" by (simp add: ex_fresh_def)
  have at: "tasks_db ex_app_state ''t1'' = Some ex_app_task" by (simp add: ex_app_state_def)
  have ar: "at_reward_per_submission ex_app_task = 10" by (simp add: ex_app_task_def)
  have ag: "(case TaskType_of (at_task_type ex_app_task) of
               Inl e \<Rightarrow> Inl e
             | Inr task_type \<Rightarrow> verify_submission std_lib ex_fx_ok ''s1'' ''t1'' None) =
            Inr ex_vr_ok"
    by (simp add: TaskType_of_def ex_app_task_def ex_verify_ok)
  note t1 = reward_is_rate_times_score[of ex_db "''t1''" ex_task std_lib ex_fx_ok ex_fresh ex_vr_ok
              ex_request, THEN conjunct1, rule_format, OF conjI[OF ex_get_task ex_guarded_ok],
              THEN conjunct1]
  note t2 = reward_is_rate_times_score[of ex_db "''t1''" ex_task std_lib ex_fx_wild ex_fresh
              ex_vr_wild ex_request, THEN conjunct1, rule_format,
              OF conjI[OF ex_get_task ex_guarded_wild], THEN conjunct1]
  note t3 = reward_is_rate_times_score[where st=ex_app_state and tid="''t1''"
              and atask=ex_app_task and lib=std_lib and fx=ex_fx_ok and uuid="''s1''"
              and vr'=ex_vr_ok and now="''2024-02-01T10:00:01''"
              and now'="''2024-02-01T10:00:03''"
              and data="JObject [(''answer'', JString ''dogs'')]",
              THEN conjunct2, rule_format, OF conjI[OF at ag], THEN conjunct2]
  have a: "snd (submit_inference std_lib ex_fx_ok ex_fresh ex_db ''t1'' ex_request) =
        Inr \<lparr> resp_status = ''success'', resp_submission_id = ''s1'',
              resp_verification = ex_vr_ok, resp_reward_earned = 8.5 \<rparr>"
    using t1 by (simp add: r s1 u)
  have b: "snd (submit_inference std_lib ex_fx_wild ex_fresh ex_db ''t1'' ex_request) =
        Inr \<lparr> resp_status = ''success'', resp_submission_id = ''s1'',
              resp_verification = ex_vr_wild, resp_reward_earned = 50 \<rparr>"
    using t2 by (simp add: r s2 u)
  have c: "map_option as_reward_earned
        (submissions_db (fst (app_submit_inference std_lib ex_fx_ok True ''s1''
            ''2024-02-01T10:00:01'' ''2024-02-01T10:00:03'' ex_app_state ''t1''
            (JObject [(''answer'', JString ''dogs'')]))) ''s1'') = Some (Some 8.5)"
    using t3 by (simp add: ar s1)
  from ex_get_task r ex_guarded_ok s1 a ex_guarded_wild s2 b at c show ?thesis by (intro conjI)
qed

section \<open>The orchestrator\<close>

lemma client_verify_submission_wraps:
  "verify_body lib fx sid tid t = Inl e \<Longrightarrow>
     client_verify_submission lib fx sid tid t =
       Inl (Exn VerificationError (''Verification failed: '' @ str_exn e) (Some e))"
  "verify_body lib fx sid tid t = Inr r \<Longrightarrow> client_verify_submission lib fx sid tid t = Inr r"
  by (simp_all add: client_verify_submission_def)

lemma client_verify_submission_Inr:
  "client_verify_submission lib fx sid tid t = Inr r \<longleftrightarrow> verify_body lib fx sid tid t = Inr r"
  by (simp add: client_verify_submission_def split: sum.splits)

lemma verify_body_parsed:
  assumes "api_outcome fx = Inr content" and "first_text content = Inr text"
    and "parse_claude_response lib (time_result fx) text sid tid = Inr r"
  shows "verify_body lib fx sid tid t =
     (if py_int ((time_end fx - time_start fx) * 1000) > t * 1000
      then Inl (Exn TimeoutError
                  (''Verification took '' @ str_int (py_int ((time_end fx - time_start fx) * 1000)) @
                   ''ms, exceeded '' @ str_int t @ ''s limit'') None)
      else Inr (r\<lparr>execution_time_ms := py_int ((time_end fx - time_start fx) * 1000)\<rparr>))"
  using assms by (simp add: verify_body_def Let_def)

lemma verify_body_Inr_time:
  assumes "verify_body lib fx sid tid t = Inr r"
  shows "execution_time_ms r = py_int ((time_end fx - time_start fx) * 1000)
       \<and> execution_time_ms r \<le> t * 1000"
  using assms
  by (auto simp: verify_body_def Let_def split: sum.splits if_splits)

text \<open>
  C5. The time is measured after the judge has answered and the answer has been parsed.
  When the measured time in milliseconds exceeds the budget (\<open>t\<close> seconds, 30 by default),
  the call fails with \<open>VerificationError\<close> caused by \<open>TimeoutError\<close>, although a result had
  been obtained; otherwise the result is returned with the measured time. Hence every
  result returned carries a measured time within the budget.
\<close>

theorem timeout_rejects_after_the_call:
  "(api_outcome fx = Inr content \<and> first_text content = Inr text
      \<and> parse_claude_response lib (time_result fx) text sid tid = Inr r \<longrightarrow>
      (py_int ((time_end fx - time_start fx) * 1000) > t * 1000 \<longrightarrow>
         client_verify_submission lib fx sid tid t =
           Inl (Exn VerificationError
                  (''Verification failed: Verification took '' @
                   str_int (py_int ((time_end fx - time_start fx) * 1000)) @
                   ''ms, exceeded '' @ str_int t @ ''s limit'')
                  (Some (Exn TimeoutError
                           (''Verification took '' @
                            str_int (py_int ((time_end fx - time_start fx) * 1000)) @
                            ''ms, exceeded '' @ str_int t @ ''s limit'') None))))
      \<and> (py_int ((time_end fx - time_start fx) * 1000) \<le> t * 1000 \<longrightarrow>
         client_verify_submission lib fx sid tid t =
           Inr (r\<lparr>execution_time_ms := py_int ((time_end fx - time_start fx) * 1000)\<rparr>)))
   \<and> (\<forall>r'. client_verify_submission lib fx sid tid t = Inr r' \<longrightarrow>
          execution_time_ms r' = py_int ((time_end fx - time_start fx) * 1000)
          \<and> execution_time_ms r' \<le> t * 1000)
   \<and> (\<forall>r'. verify_submission lib fx sid tid api_key = Inr r' \<longrightarrow>
          execution_time_ms r' \<le> 30 * 1000)"
proof (intro conjI allI impI)
  assume h: "api_outcome fx = Inr content \<and> first_text content = Inr text
      \<and> parse_claude_response lib (time_result fx) text sid tid = Inr r"
  note b = verify_body_parsed[OF h[THEN conjunct1] h[THEN conjunct2, THEN conjunct1]
             h[THEN conjunct2, THEN conjunct2], of t]
  {
    assume "py_int ((time_end fx - time_start fx) * 1000) > t * 1000"
    then show "client_verify_submission lib fx sid tid t =
           Inl (Exn VerificationError
                  (''Verification failed: Verification took '' @
                   str_int (py_int ((time_end fx - time_start fx) * 1000)) @
                   ''ms, exceeded '' @ str_int t @ ''s limit'')
                  (Some (Exn TimeoutError
                           (''Verification took '' @
                            str_int (py_int ((time_end fx - time_start fx) * 1000)) @
                            ''ms, exceeded '' @ str_int t @ ''s limit'') None)))"
      using b by (simp add: client_verify_submission_def str_exn_def)
  }
  {
    assume "py_int ((time_end fx - time_start fx) * 1000) \<le> t * 1000"
    then show "client_verify_submission lib fx sid tid t =
           Inr (r\<lparr>execution_time_ms := py_int ((time_end fx - time_start fx) * 1000)\<rparr>)"
      using b by (simp add: client_verify_submission_def)
  }
next
  fix r' assume "client_verify_submission lib fx sid tid t = Inr r'"
  then have "verify_body lib fx sid tid t = Inr r'" by (simp add: client_verify_submission_Inr)
  from verify_body_Inr_time[OF this]
  show "execution_time_ms r' = py_int ((time_end fx - time_start fx) * 1000)"
    and "execution_time_ms r' \<le> t * 1000" by simp_all
next
  fix r' assume "verify_submission lib fx sid tid api_key = Inr r'"
  then have "verify_body lib fx sid tid 30 = Inr r'"
    by (simp add: verify_submission_def client_verify_submission_Inr split: sum.splits)
  from verify_body_Inr_time[OF this] show "execution_time_ms r' \<le> 30 * 1000" by simp
qed

text \<open>
  An answer after 31.25 seconds is rejected; one after 30.0005 seconds measures 30000
  milliseconds and is returned.
\<close>

theorem timeout_rejects_after_the_call_witness:
  "api_outcome ex_fx_slow =
     Inr [TextBlock ''{\"is_valid\": true, \"score\": 0.85, \"feedback\": \"ok\"}'']
   \<and> parse_claude_response std_lib (time_result ex_fx_slow)
        ''{\"is_valid\": true, \"score\": 0.85, \"feedback\": \"ok\"}'' ''s1'' ''t1'' =
       Inr (ex_vr_ok\<lparr>verification_timestamp := 131, execution_time_ms := 0\<rparr>)
   \<and> py_int ((time_end ex_fx_slow - time_start ex_fx_slow) * 1000) = 31250
   \<and> client_verify_submission std_lib ex_fx_slow ''s1'' ''t1'' 30 =
       Inl (Exn VerificationError
              ''Verification failed: Verification took 31250ms, exceeded 30s limit''
              (Some (Exn TimeoutError ''Verification took 31250ms, exceeded 30s limit'' None)))
   \<and> py_int ((time_end ex_fx_edge - time_start ex_fx_edge) * 1000) = 30000
   \<and> client_verify_submission std_lib ex_fx_edge ''s1'' ''t1'' 30 =
       Inr (ex_vr_ok\<lparr>execution_time_ms := 30000\<rparr>)"
proof -
  have a1: "api_outcome ex_fx_slow =
     Inr [TextBlock ''{\"is_valid\": true, \"score\": 0.85, \"feedback\": \"ok\"}'']"
    by (simp add: ex_fx_slow_def)
  have a2: "api_outcome ex_fx_edge =
     Inr [TextBlock ''{\"is_valid\": true, \"score\": 0.85, \"feedback\": \"ok\"}'']"
    by (simp add: ex_fx_edge_def)
  have f: "first_text [TextBlock ''{\"is_valid\": true, \"score\": 0.85, \"feedback\": \"ok\"}''] =
             Inr ''{\"is_valid\": true, \"score\": 0.85, \"feedback\": \"ok\"}''"
    by (simp add: first_text_def)
  have p1: "parse_claude_response std_lib (time_result ex_fx_slow)
        ''{\"is_valid\": true, \"score\": 0.85, \"feedback\": \"ok\"}'' ''s1'' ''t1'' =
       Inr (ex_vr_ok\<lparr>verification_timestamp := 131, execution_time_ms := 0\<rparr>)"
    by (simp add: parse_claude_response_def std_lib_def ex_decode_ok make_result_def py_get_def
          dict_get_def py_float_def ex_vr_ok_def ex_fx_slow_def)
  have p2: "parse_claude_response std_lib (time_result ex_fx_edge)
        ''{\"is_valid\": true, \"score\": 0.85, \"feedback\": \"ok\"}'' ''s1'' ''t1'' =
       Inr (ex_vr_ok\<lparr>execution_time_ms := 0\<rparr>)"
    using ex_parse_ok by (simp add: ex_fx_edge_def)
  have t1: "py_int ((time_end ex_fx_slow - time_start ex_fx_slow) * 1000) = 31250"
    by (simp add: py_int_def ex_fx_slow_def)
  have t2: "py_int ((time_end ex_fx_edge - time_start ex_fx_edge) * 1000) = 30000"
    by (simp add: py_int_def ex_fx_edge_def)
  have s1: "str_int 31250 = ''31250''" by (simp add: str_int_def)
  have s2: "str_int 30 = ''30''" by (simp add: str_int_def)
  note w1 = timeout_rejects_after_the_call[where fx=ex_fx_slow and lib=std_lib and t=30
      and sid="''s1''" and tid="''t1''", THEN conjunct1, rule_format,
      OF conjI[OF a1 conjI[OF f p1]], THEN conjunct1, rule_format]
  note w2 = timeout_rejects_after_the_call[where fx=ex_fx_edge and lib=std_lib and t=30
      and sid="''s1''" and tid="''t1''", THEN conjunct1, rule_format,
      OF conjI[OF a2 conjI[OF f p2]], THEN conjunct2, rule_format]
  have c1: "client_verify_submission std_lib ex_fx_slow ''s1'' ''t1'' 30 =
       Inl (Exn VerificationError
              ''Verification failed: Verification took 31250ms, exceeded 30s limit''
              (Some (Exn TimeoutError ''Verification took 31250ms, exceeded 30s limit'' None)))"
    using w1 unfolding t1 s1 s2 by simp
  have c2: "client_verify_submission std_lib ex_fx_edge ''s1'' ''t1'' 30 =
       Inr (ex_vr_ok\<lparr>execution_time_ms := 30000\<rparr>)"
    using w2 unfolding t2 by (simp add: ex_vr_ok_def)
  from a1 p1 t1 c1 t2 c2 show ?thesis by (intro conjI)
qed

section \<open>The verdict parser\<close>

lemma make_result_object:
  "make_result lib now (JObject kvs) sid tid =
     (case py_float lib (dict_get kvs ''score'' (JFloat 0)) of
        Inl e \<Rightarrow> Inl e
      | Inr sc \<Rightarrow>
          Inr \<lparr> submission_id = sid, task_id = tid,
                is_valid = dict_get kvs ''is_valid'' (JBool False), ai_score = sc,
                feedback = dict_get kvs ''feedback'' (JString ''No feedback provided''),
                model_used = ''claude-3-5-sonnet-20241022'',
                verification_timestamp = now, execution_time_ms = 0 \<rparr>)"
  by (simp add: make_result_def py_get_def split: sum.splits)

lemma parse_claude_response_whole:
  "json_loads lib text = Inr data \<Longrightarrow>
     parse_claude_response lib now text sid tid = make_result lib now data sid tid"
  by (simp add: parse_claude_response_def)

lemma ex_decode_072:
  "json_decode ''{\"is_valid\":true,\"score\":0.72,\"feedback\":\"ok\"}'' =
     Some (JObject [(''is_valid'', JBool True), (''score'', JFloat 0.72),
                    (''feedback'', JString ''ok'')])"
  by code_simp

lemma ex_decode_empty_object: "json_decode ''{}'' = Some (JObject [])"
  by code_simp

lemma ex_decode_null_score:
  "json_decode ''{\"score\": null}'' = Some (JObject [(''score'', JNull)])"
  by code_simp

lemma std_lib_loads:
  "json_decode s = Some v \<Longrightarrow> json_loads std_lib s = Inr v"
  "json_decode s = None \<Longrightarrow> json_loads std_lib s = Inl ''invalid JSON document''"
  by (simp_all add: std_lib_def)

text \<open>
  C4, as the code has it. When the whole text parses as a JSON object, the parser takes
  \<open>is_valid\<close> and \<open>feedback\<close> from the object as they are (\<open>False\<close> and
  \<open>No feedback provided\<close> when the key is absent) and passes the \<open>score\<close> value (\<open>0.0\<close> when
  absent) to \<open>float\<close>. If \<open>float\<close> accepts the value, the verdict with these three fields
  is returned; if it raises, the parser raises the same error and returns no verdict.
  \<open>float\<close> accepts a float (unchanged), an integer within the range of a double, a boolean,
  and a string that it can parse.
\<close>

theorem verdict_fields_of_object:
  "(json_loads lib text = Inr (JObject kvs) \<longrightarrow>
      parse_claude_response lib now text sid tid =
        (case py_float lib (dict_get kvs ''score'' (JFloat 0)) of
           Inl e \<Rightarrow> Inl e
         | Inr sc \<Rightarrow>
             Inr \<lparr> submission_id = sid, task_id = tid,
                   is_valid = dict_get kvs ''is_valid'' (JBool False), ai_score = sc,
                   feedback = dict_get kvs ''feedback'' (JString ''No feedback provided''),
                   model_used = ''claude-3-5-sonnet-20241022'',
                   verification_timestamp = now, execution_time_ms = 0 \<rparr>))
   \<and> (map_of kvs k = None \<longrightarrow> dict_get kvs k dflt = dflt)
   \<and> (\<forall>v. map_of kvs k = Some v \<longrightarrow> dict_get kvs k dflt = v)
   \<and> py_float lib (JFloat x) = Inr x
   \<and> (\<bar>i\<bar> < 2 ^ 1024 - 2 ^ 970 \<longrightarrow> py_float lib (JInt i) = Inr (of_int i))
   \<and> py_float lib (JBool b) = Inr (if b then 1 else 0)
   \<and> (\<forall>s x. float_of_str lib s = Inr x \<longrightarrow> py_float lib (JString s) = Inr x)"
proof (intro conjI impI allI)
  assume "json_loads lib text = Inr (JObject kvs)"
  then show "parse_claude_response lib now text sid tid =
        (case py_float lib (dict_get kvs ''score'' (JFloat 0)) of
           Inl e \<Rightarrow> Inl e
         | Inr sc \<Rightarrow>
             Inr \<lparr> submission_id = sid, task_id = tid,
                   is_valid = dict_get kvs ''is_valid'' (JBool False), ai_score = sc,
                   feedback = dict_get kvs ''feedback'' (JString ''No feedback provided''),
                   model_used = ''claude-3-5-sonnet-20241022'',
                   verification_timestamp = now, execution_time_ms = 0 \<rparr>)"
    by (simp only: parse_claude_response_whole make_result_object)
next
  assume "\<bar>i\<bar> < 2 ^ 1024 - 2 ^ 970"
  then show "py_float lib (JInt i) = Inr (of_int i)"
    unfolding py_float_def by (simp only: json.case not_le[symmetric] if_False)
qed (simp_all add: dict_get_def py_float_def)

text \<open>
  The object of the specification's example is returned field by field; the empty object
  gives the three defaults.
\<close>

theorem verdict_fields_of_object_witness:
  "json_loads std_lib ''{\"is_valid\":true,\"score\":0.72,\"feedback\":\"ok\"}'' =
     Inr (JObject [(''is_valid'', JBool True), (''score'', JFloat 0.72),
                   (''feedback'', JString ''ok'')])
   \<and> parse_claude_response std_lib 101
        ''{\"is_valid\":true,\"score\":0.72,\"feedback\":\"ok\"}'' ''s1'' ''t1'' =
       Inr \<lparr> submission_id = ''s1'', task_id = ''t1'', is_valid = JBool True, ai_score = 0.72,
             feedback = JString ''ok'', model_used = ''claude-3-5-sonnet-20241022'',
             verification_timestamp = 101, execution_time_ms = 0 \<rparr>
   \<and> json_loads std_lib ''{}'' = Inr (JObject [])
   \<and> parse_claude_response std_lib 101 ''{}'' ''s1'' ''t1'' =
       Inr \<lparr> submission_id = ''s1'', task_id = ''t1'', is_valid = JBool False, ai_score = 0,
             feedback = JString ''No feedback provided'',
             model_used = ''claude-3-5-sonnet-20241022'',
             verification_timestamp = 101, execution_time_ms = 0 \<rparr>"
proof -
  note l1 = std_lib_loads(1)[OF ex_decode_072]
  note l2 = std_lib_loads(1)[OF ex_decode_empty_object]
  have a: "parse_claude_response std_lib 101
        ''{\"is_valid\":true,\"score\":0.72,\"feedback\":\"ok\"}'' ''s1'' ''t1'' =
       Inr \<lparr> submission_id = ''s1'', task_id = ''t1'', is_valid = JBool True, ai_score = 0.72,
             feedback = JString ''ok'', model_used = ''claude-3-5-sonnet-20241022'',
             verification_timestamp = 101, execution_time_ms = 0 \<rparr>"
    using verdict_fields_of_object[where lib=std_lib, THEN conjunct1, rule_format, OF l1,
            of 101 "''s1''" "''t1''"]
    by (simp add: dict_get_def py_float_def)
  have b: "parse_claude_response std_lib 101 ''{}'' ''s1'' ''t1'' =
       Inr \<lparr> submission_id = ''s1'', task_id = ''t1'', is_valid = JBool False, ai_score = 0,
             feedback = JString ''No feedback provided'',
             model_used = ''claude-3-5-sonnet-20241022'',
             verification_timestamp = 101, execution_time_ms = 0 \<rparr>"
    using verdict_fields_of_object[where lib=std_lib, THEN conjunct1, rule_format, OF l2,
            of 101 "''s1''" "''t1''"]
    by (simp add: dict_get_def py_float_def)
  from l1 a l2 b show ?thesis by (intro conjI)
qed

text \<open>
  The specification's sentence promises a verdict for every text that parses as a JSON
  object. For the object whose score is \<open>null\<close> the parser raises \<open>TypeError\<close> instead.
\<close>

theorem null_score_raises:
  "json_loads std_lib ''{\"score\": null}'' = Inr (JObject [(''score'', JNull)])
   \<and> parse_claude_response std_lib 101 ''{\"score\": null}'' ''s1'' ''t1'' =
       Inl (Exn TypeError
              (''float() argument must be a string or a real number, not '' @
               [CHR 0x27] @ ''NoneType'' @ [CHR 0x27]) None)"
proof -
  note l = std_lib_loads(1)[OF ex_decode_null_score]
  have "parse_claude_response std_lib 101 ''{\"score\": null}'' ''s1'' ''t1'' =
       Inl (Exn TypeError
              (''float() argument must be a string or a real number, not '' @
               [CHR 0x27] @ ''NoneType'' @ [CHR 0x27]) None)"
    by (simp add: parse_claude_response_whole[OF l] make_result_object dict_get_def py_float_def)
  with l show ?thesis by (intro conjI)
qed

section \<open>The fallback extraction\<close>

lemma greedy_close_None_iff: "greedy_close cs = None \<longleftrightarrow> CHR ''}'' \<notin> set cs"
  by (induction cs) (auto split: option.splits)

lemma greedy_close_SomeD:
  "greedy_close cs = Some m \<Longrightarrow>
     \<exists>post. cs = m @ post \<and> CHR ''}'' \<notin> set post \<and> m \<noteq> [] \<and> last m = CHR ''}''"
proof (induction cs arbitrary: m)
  case Nil
  then show ?case by simp
next
  case (Cons c cs)
  show ?case
  proof (cases "greedy_close cs")
    case None
    with Cons.prems have "c = CHR ''}''" and "m = [c]" by (auto split: if_splits)
    moreover from None have "CHR ''}'' \<notin> set cs" by (simp add: greedy_close_None_iff)
    ultimately show ?thesis by auto
  next
    case (Some m')
    with Cons.prems have m: "m = c # m'" by simp
    from Cons.IH[OF Some] obtain post where
      "cs = m' @ post" "CHR ''}'' \<notin> set post" "m' \<noteq> []" "last m' = CHR ''}''" by blast
    with m show ?thesis by auto
  qed
qed

lemma greedy_close_complete:
  "m \<noteq> [] \<Longrightarrow> last m = CHR ''}'' \<Longrightarrow> CHR ''}'' \<notin> set post \<Longrightarrow>
     greedy_close (m @ post) = Some m"
proof (induction m)
  case Nil
  then show ?case by simp
next
  case (Cons c m)
  show ?case
  proof (cases "m = []")
    case True
    with Cons.prems have "c = CHR ''}''" by simp
    moreover from Cons.prems(3) have "greedy_close post = None"
      by (simp add: greedy_close_None_iff)
    ultimately show ?thesis using True by simp
  next
    case False
    with Cons have "greedy_close (m @ post) = Some m" by simp
    then show ?thesis by simp
  qed
qed

lemma re_search_braces_no_close:
  "CHR ''}'' \<notin> set cs \<Longrightarrow> re_search_braces cs = None"
proof (induction cs)
  case Nil
  then show ?case by simp
next
  case (Cons c cs)
  then have "greedy_close cs = None" and "re_search_braces cs = None"
    by (simp_all add: greedy_close_None_iff)
  then show ?case by simp
qed

lemma re_search_braces_SomeD:
  "re_search_braces inp = Some j \<Longrightarrow>
     \<exists>pre post. inp = pre @ j @ post \<and> CHR ''{'' \<notin> set pre \<and> CHR ''}'' \<notin> set post
        \<and> hd j = CHR ''{'' \<and> last j = CHR ''}'' \<and> 2 \<le> length j"
proof (induction inp)
  case Nil
  then show ?case by simp
next
  case (Cons c cs)
  show ?case
  proof (cases "c = CHR ''{''")
    case True
    show ?thesis
    proof (cases "greedy_close cs")
      case None
      then have "re_search_braces cs = None"
        by (simp add: greedy_close_None_iff re_search_braces_no_close)
      with Cons.prems True None show ?thesis by simp
    next
      case (Some m)
      with Cons.prems True have j: "j = c # m" by simp
      from greedy_close_SomeD[OF Some] obtain post where
        p: "cs = m @ post" "CHR ''}'' \<notin> set post" "m \<noteq> []" "last m = CHR ''}''" by blast
      have "c # cs = [] @ j @ post" using j p(1) by simp
      moreover have "2 \<le> length j" using j p(3) by (cases m) simp_all
      ultimately show ?thesis using j p True
        by (intro exI[of _ "[]"] exI[of _ post]) simp
    qed
  next
    case False
    with Cons.prems have "re_search_braces cs = Some j" by simp
    from Cons.IH[OF this] obtain pre post where
      p: "cs = pre @ j @ post" "CHR ''{'' \<notin> set pre" "CHR ''}'' \<notin> set post"
         "hd j = CHR ''{''" "last j = CHR ''}''" "2 \<le> length j" by blast
    show ?thesis using p False
      by (intro exI[of _ "c # pre"] exI[of _ post]) simp
  qed
qed

lemma re_search_braces_complete:
  assumes "CHR ''{'' \<notin> set pre" and "CHR ''}'' \<notin> set post"
    and "hd j = CHR ''{''" and "last j = CHR ''}''" and "2 \<le> length j"
  shows "re_search_braces (pre @ j @ post) = Some j"
proof -
  from assms(5) obtain c m where cm: "j = c # m" by (cases j) auto
  with assms(3) have j: "j = CHR ''{'' # m" by simp
  from assms(5) cm have m: "m \<noteq> []" by auto
  from assms(4) j m have lm: "last m = CHR ''}''" by simp
  have g: "greedy_close (m @ post) = Some m"
    by (rule greedy_close_complete[OF m lm assms(2)])
  have "re_search_braces (pre @ CHR ''{'' # m @ post) = Some (CHR ''{'' # m)"
    using assms(1) by (induction pre) (auto simp: g)
  then show ?thesis using j by simp
qed

lemma re_search_braces_None_iff:
  "re_search_braces inp = None \<longleftrightarrow>
     CHR ''}'' \<notin> set (dropWhile (\<lambda>c. c \<noteq> CHR ''{'') inp)"
proof (induction inp)
  case Nil
  then show ?case by simp
next
  case (Cons c cs)
  show ?case
  proof (cases "c = CHR ''{''")
    case True
    show ?thesis
    proof (cases "greedy_close cs")
      case None
      then have "CHR ''}'' \<notin> set cs" by (simp add: greedy_close_None_iff)
      then show ?thesis using True None by (simp add: re_search_braces_no_close)
    next
      case (Some m)
      then have "CHR ''}'' \<in> set cs" using greedy_close_None_iff[of cs] by simp
      then show ?thesis using True Some by simp
    qed
  next
    case False
    then show ?thesis using Cons.IH by simp
  qed
qed

lemma parse_claude_response_fallback:
  assumes "json_loads lib text = Inl m" and "re_search_braces text = Some j"
  shows "parse_claude_response lib now text sid tid =
     (case json_loads lib j of
        Inr data \<Rightarrow> make_result lib now data sid tid
      | Inl m' \<Rightarrow> Inl (Exn JSONDecodeError m' None))"
  using assms by (simp add: parse_claude_response_def)

lemma parse_claude_response_no_match:
  assumes "json_loads lib text = Inl m" and "re_search_braces text = None"
  shows "parse_claude_response lib now text sid tid =
     Inl (Exn VerificationError (''Could not parse Claude response: '' @ text) None)"
  using assms by (simp add: parse_claude_response_def)

text \<open>
  C3, as the code has it. The fallback search returns the part of the text from its first
  opening brace through its last closing brace, when a closing brace follows the first
  opening one, and nothing otherwise; braces are not balanced. When the whole text does
  not parse and that part does, the verdict is built from that part.
\<close>

theorem fallback_takes_first_open_to_last_close:
  "(re_search_braces response_text = Some j \<longrightarrow>
      (\<exists>pre post. response_text = pre @ j @ post \<and> CHR ''{'' \<notin> set pre \<and> CHR ''}'' \<notin> set post
          \<and> hd j = CHR ''{'' \<and> last j = CHR ''}'' \<and> 2 \<le> length j))
   \<and> (CHR ''{'' \<notin> set pre' \<and> CHR ''}'' \<notin> set post' \<and> hd j' = CHR ''{''
        \<and> last j' = CHR ''}'' \<and> 2 \<le> length j' \<longrightarrow>
      re_search_braces (pre' @ j' @ post') = Some j')
   \<and> (re_search_braces response_text = None \<longleftrightarrow>
        CHR ''}'' \<notin> set (dropWhile (\<lambda>c. c \<noteq> CHR ''{'') response_text))
   \<and> (json_loads lib response_text = Inl m \<and> re_search_braces response_text = Some j
        \<and> json_loads lib j = Inr data \<longrightarrow>
      parse_claude_response lib now response_text sid tid = make_result lib now data sid tid)"
proof (intro conjI impI)
  assume "re_search_braces response_text = Some j"
  then show "\<exists>pre post. response_text = pre @ j @ post \<and> CHR ''{'' \<notin> set pre \<and> CHR ''}'' \<notin> set post
          \<and> hd j = CHR ''{'' \<and> last j = CHR ''}'' \<and> 2 \<le> length j"
    by (rule re_search_braces_SomeD)
next
  assume "CHR ''{'' \<notin> set pre' \<and> CHR ''}'' \<notin> set post' \<and> hd j' = CHR ''{''
        \<and> last j' = CHR ''}'' \<and> 2 \<le> length j'"
  then show "re_search_braces (pre' @ j' @ post') = Some j'"
    by (intro re_search_braces_complete) simp_all
next
  show "re_search_braces response_text = None \<longleftrightarrow>
        CHR ''}'' \<notin> set (dropWhile (\<lambda>c. c \<noteq> CHR ''{'') response_text)"
    by (rule re_search_braces_None_iff)
next
  assume "json_loads lib response_text = Inl m \<and> re_search_braces response_text = Some j
        \<and> json_loads lib j = Inr data"
  then show "parse_claude_response lib now response_text sid tid = make_result lib now data sid tid"
    by (simp add: parse_claude_response_fallback)
qed


lemma ex_chatty_whole: "json_decode ''Sure! {\"is_valid\": false, \"score\": 0.1, \"feedback\": \"bad\"} thanks'' = None"
  by code_simp

lemma ex_chatty_search: "re_search_braces ''Sure! {\"is_valid\": false, \"score\": 0.1, \"feedback\": \"bad\"} thanks'' = Some ''{\"is_valid\": false, \"score\": 0.1, \"feedback\": \"bad\"}''"
  by code_simp

lemma ex_chatty_span:
  "json_decode ''{\"is_valid\": false, \"score\": 0.1, \"feedback\": \"bad\"}'' =
     Some (JObject [(''is_valid'', JBool False), (''score'', JFloat 0.1),
                    (''feedback'', JString ''bad'')])"
  by code_simp

text \<open>
  The text of the specification's example: the part between \<open>Sure! \<close> and \<open> thanks\<close> is
  extracted and gives the verdict (false, 0.1, bad).
\<close>

theorem fallback_takes_first_open_to_last_close_witness:
  "json_loads std_lib ''Sure! {\"is_valid\": false, \"score\": 0.1, \"feedback\": \"bad\"} thanks'' = Inl ''invalid JSON document''
   \<and> re_search_braces ''Sure! {\"is_valid\": false, \"score\": 0.1, \"feedback\": \"bad\"} thanks'' = Some ''{\"is_valid\": false, \"score\": 0.1, \"feedback\": \"bad\"}''
   \<and> ''Sure! {\"is_valid\": false, \"score\": 0.1, \"feedback\": \"bad\"} thanks'' = ''Sure! '' @ ''{\"is_valid\": false, \"score\": 0.1, \"feedback\": \"bad\"}'' @ '' thanks''
   \<and> json_loads std_lib ''{\"is_valid\": false, \"score\": 0.1, \"feedback\": \"bad\"}'' =
       Inr (JObject [(''is_valid'', JBool False), (''score'', JFloat 0.1),
                     (''feedback'', JString ''bad'')])
   \<and> parse_claude_response std_lib 101 ''Sure! {\"is_valid\": false, \"score\": 0.1, \"feedback\": \"bad\"} thanks'' ''s1'' ''t1'' =
       Inr \<lparr> submission_id = ''s1'', task_id = ''t1'', is_valid = JBool False, ai_score = 0.1,
             feedback = JString ''bad'', model_used = ''claude-3-5-sonnet-20241022'',
             verification_timestamp = 101, execution_time_ms = 0 \<rparr>"
proof -
  note l1 = std_lib_loads(2)[OF ex_chatty_whole]
  note l2 = std_lib_loads(1)[OF ex_chatty_span]
  have e: "''Sure! {\"is_valid\": false, \"score\": 0.1, \"feedback\": \"bad\"} thanks'' = ''Sure! '' @ ''{\"is_valid\": false, \"score\": 0.1, \"feedback\": \"bad\"}'' @ '' thanks''" by simp
  have c1: "CHR ''{'' \<notin> set ''Sure! ''" and c2: "CHR ''}'' \<notin> set '' thanks''"
    and c3: "hd ''{\"is_valid\": false, \"score\": 0.1, \"feedback\": \"bad\"}'' = CHR ''{''" and c4: "last ''{\"is_valid\": false, \"score\": 0.1, \"feedback\": \"bad\"}'' = CHR ''}''" and c5: "2 \<le> length ''{\"is_valid\": false, \"score\": 0.1, \"feedback\": \"bad\"}''"
    by simp_all
  note t = fallback_takes_first_open_to_last_close[where lib=std_lib and response_text="''Sure! {\"is_valid\": false, \"score\": 0.1, \"feedback\": \"bad\"} thanks''" and j="''{\"is_valid\": false, \"score\": 0.1, \"feedback\": \"bad\"}''"
      and pre'="''Sure! ''" and post'="'' thanks''" and j'="''{\"is_valid\": false, \"score\": 0.1, \"feedback\": \"bad\"}''"]
  have s: "re_search_braces (''Sure! '' @ ''{\"is_valid\": false, \"score\": 0.1, \"feedback\": \"bad\"}'' @ '' thanks'') = Some ''{\"is_valid\": false, \"score\": 0.1, \"feedback\": \"bad\"}''"
    using t[THEN conjunct2, THEN conjunct1, rule_format,
            OF conjI[OF c1 conjI[OF c2 conjI[OF c3 conjI[OF c4 c5]]]]] .
  have s': "re_search_braces ''Sure! {\"is_valid\": false, \"score\": 0.1, \"feedback\": \"bad\"} thanks'' = Some ''{\"is_valid\": false, \"score\": 0.1, \"feedback\": \"bad\"}''" using s by simp
  have p: "parse_claude_response std_lib 101 ''Sure! {\"is_valid\": false, \"score\": 0.1, \"feedback\": \"bad\"} thanks'' ''s1'' ''t1'' =
       Inr \<lparr> submission_id = ''s1'', task_id = ''t1'', is_valid = JBool False, ai_score = 0.1,
             feedback = JString ''bad'', model_used = ''claude-3-5-sonnet-20241022'',
             verification_timestamp = 101, execution_time_ms = 0 \<rparr>"
    using t[THEN conjunct2, THEN conjunct2, THEN conjunct2, rule_format,
            OF conjI[OF l1 conjI[OF s' l2]], of 101 "''s1''" "''t1''"]
    by (simp add: make_result_object dict_get_def py_float_def)
  from l1 s' e l2 p show ?thesis by (intro conjI)
qed

lemma ex_two_whole: "json_decode ''{\"is_valid\": true, \"score\": 0.9, \"feedback\": \"ok\"} (rubric {a})'' = None"
  by code_simp

lemma ex_two_first: "json_decode ''{\"is_valid\": true, \"score\": 0.9, \"feedback\": \"ok\"}'' =
     Some (JObject [(''is_valid'', JBool True), (''score'', JFloat 0.9),
                    (''feedback'', JString ''ok'')])"
  by code_simp

lemma ex_two_greedy: "json_decode ''{\"is_valid\": true, \"score\": 0.9, \"feedback\": \"ok\"} (rubric {a}'' = None"
  by code_simp

lemma ex_two_search: "re_search_braces ''{\"is_valid\": true, \"score\": 0.9, \"feedback\": \"ok\"} (rubric {a})'' = Some ''{\"is_valid\": true, \"score\": 0.9, \"feedback\": \"ok\"} (rubric {a}''"
  by code_simp

lemma ex_two_balanced: "first_balanced ''{\"is_valid\": true, \"score\": 0.9, \"feedback\": \"ok\"} (rubric {a})'' = Some ''{\"is_valid\": true, \"score\": 0.9, \"feedback\": \"ok\"}''"
  by code_simp

text \<open>
  A verdict followed by a remark that has braces of its own. The first balanced
  substring is the verdict, and parsing it would return (true, 0.9, ok); the code extracts
  up to the last closing brace, which is not JSON, and raises. The same on the text of two
  empty objects.
\<close>

theorem greedy_span_is_not_first_balanced:
  "first_balanced ''{\"is_valid\": true, \"score\": 0.9, \"feedback\": \"ok\"} (rubric {a})'' = Some ''{\"is_valid\": true, \"score\": 0.9, \"feedback\": \"ok\"}''
   \<and> re_search_braces ''{\"is_valid\": true, \"score\": 0.9, \"feedback\": \"ok\"} (rubric {a})'' = Some ''{\"is_valid\": true, \"score\": 0.9, \"feedback\": \"ok\"} (rubric {a}''
   \<and> spec_parse_first_balanced std_lib 101 ''{\"is_valid\": true, \"score\": 0.9, \"feedback\": \"ok\"} (rubric {a})'' ''s1'' ''t1'' =
       Inr \<lparr> submission_id = ''s1'', task_id = ''t1'', is_valid = JBool True, ai_score = 0.9,
             feedback = JString ''ok'', model_used = ''claude-3-5-sonnet-20241022'',
             verification_timestamp = 101, execution_time_ms = 0 \<rparr>
   \<and> isl (parse_claude_response std_lib 101 ''{\"is_valid\": true, \"score\": 0.9, \"feedback\": \"ok\"} (rubric {a})'' ''s1'' ''t1'')
   \<and> exn_class (projl (parse_claude_response std_lib 101 ''{\"is_valid\": true, \"score\": 0.9, \"feedback\": \"ok\"} (rubric {a})'' ''s1'' ''t1'')) = JSONDecodeError
   \<and> first_balanced ''{} {}'' = Some ''{}''
   \<and> re_search_braces ''{} {}'' = Some ''{} {}''
   \<and> json_loads std_lib ''{}'' = Inr (JObject [])
   \<and> isl (json_loads std_lib ''{} {}'')
   \<and> isl (parse_claude_response std_lib 101 ''{} {}'' ''s1'' ''t1'')"
proof -
  note w = std_lib_loads(2)[OF ex_two_whole]
  note f = std_lib_loads(1)[OF ex_two_first]
  note g = std_lib_loads(2)[OF ex_two_greedy]
  have a: "spec_parse_first_balanced std_lib 101 ''{\"is_valid\": true, \"score\": 0.9, \"feedback\": \"ok\"} (rubric {a})'' ''s1'' ''t1'' =
       Inr \<lparr> submission_id = ''s1'', task_id = ''t1'', is_valid = JBool True, ai_score = 0.9,
             feedback = JString ''ok'', model_used = ''claude-3-5-sonnet-20241022'',
             verification_timestamp = 101, execution_time_ms = 0 \<rparr>"
    unfolding spec_parse_first_balanced_def
    by (simp add: w ex_two_balanced f make_result_object dict_get_def py_float_def)
  have b: "parse_claude_response std_lib 101 ''{\"is_valid\": true, \"score\": 0.9, \"feedback\": \"ok\"} (rubric {a})'' ''s1'' ''t1'' =
             Inl (Exn JSONDecodeError ''invalid JSON document'' None)"
    by (simp add: parse_claude_response_fallback[OF w ex_two_search] g)
  have d0: "json_decode ''{} {}'' = None" by code_simp
  have d1: "json_decode ''{}'' = Some (JObject [])" by code_simp
  have r: "re_search_braces ''{} {}'' = Some ''{} {}''" by simp
  have fb: "first_balanced ''{} {}'' = Some ''{}''" by simp
  note l0 = std_lib_loads(2)[OF d0]
  have c: "parse_claude_response std_lib 101 ''{} {}'' ''s1'' ''t1'' =
             Inl (Exn JSONDecodeError ''invalid JSON document'' None)"
    by (simp add: parse_claude_response_fallback[OF l0 r] l0)
  show ?thesis
    using ex_two_balanced ex_two_search a fb r std_lib_loads(1)[OF d1]
    by (simp add: b c l0)
qed

section \<open>The mock verdict of app.py\<close>

lemma app_verify_fallback:
  assumes "(case TaskType_of (at_task_type task) of
              Inl e \<Rightarrow> Inl e
            | Inr task_type \<Rightarrow> verify_submission lib fx sid tid None) = Inl e"
  shows "app_verify lib fx True task sid tid data =
           (MockResult (get_mock_verification_result_object sid tid data), ''mock_fallback'')"
  using assms by (simp add: app_verify_def)

lemma app_verify_mock:
  "app_verify lib fx False task sid tid data =
     (MockResult (get_mock_verification_result_object sid tid data), ''mock'')"
  by (simp add: app_verify_def)

lemma app_submit_inference_count:
  assumes "tasks_db st tid = Some task"
  shows "map_option at_current_submissions
           (tasks_db (fst (app_submit_inference lib fx ca uuid now now' st tid data)) tid) =
         Some (at_current_submissions task + 1)"
  using assms by (simp add: app_submit_inference_def Let_def case_prod_beta)

text \<open>
  C9, as the code has it. The mock verdict is fixed: valid, score 0.85, a fixed feedback
  string, model \<open>mock-verifier\<close>. The endpoint of app.py uses it when \<open>CLAUDE_AVAILABLE\<close> is
  false (type \<open>mock\<close>), and also in live mode whenever the verification call raises (type
  \<open>mock_fallback\<close>): the request is then answered as a success with the mock verdict,
  rewarded with 0.85 times the rate, and counted. In live mode the judge's own result is
  used only when the call returns one.
\<close>

theorem mock_verdict_also_on_failed_call:
  "get_mock_verification_result_object sid tid data =
     \<lparr> mock_submission_id = sid, mock_task_id = tid, mock_is_valid = True,
       mock_ai_score = 0.85,
       mock_feedback =
         ''Mock verification: Submission appears correct based on task requirements'',
       mock_model_used = ''mock-verifier'', mock_execution_time_ms = 100 \<rparr>
   \<and> app_verify lib fx False task sid tid data =
       (MockResult (get_mock_verification_result_object sid tid data), ''mock'')
   \<and> (\<forall>r. (case TaskType_of (at_task_type task) of
               Inl e \<Rightarrow> Inl e
             | Inr task_type \<Rightarrow> verify_submission lib fx sid tid None) = Inr r \<longrightarrow>
          app_verify lib fx True task sid tid data = (ClaudeResult r, ''claude_ai''))
   \<and> (\<forall>e. (case TaskType_of (at_task_type task) of
               Inl e \<Rightarrow> Inl e
             | Inr task_type \<Rightarrow> verify_submission lib fx sid tid None) = Inl e \<longrightarrow>
          app_verify lib fx True task sid tid data =
            (MockResult (get_mock_verification_result_object sid tid data), ''mock_fallback''))
   \<and> (\<forall>e. tasks_db st tid = Some task
          \<and> (case TaskType_of (at_task_type task) of
                Inl e \<Rightarrow> Inl e
              | Inr task_type \<Rightarrow> verify_submission lib fx sid tid None) = Inl e \<longrightarrow>
          snd (app_submit_inference lib fx True sid now now' st tid data) =
            Inr \<lparr> ar_status = ''success'', ar_submission_id = sid,
                  ar_is_valid = JBool True, ar_ai_score = 0.85,
                  ar_feedback = JString
                    ''Mock verification: Submission appears correct based on task requirements'',
                  ar_model_used = ''mock-verifier'', ar_verification_time_ms = 100,
                  ar_verification_type = ''mock_fallback'',
                  ar_reward_earned = at_reward_per_submission task * 0.85,
                  ar_message = ''Submission verified successfully using mock_fallback'' \<rparr>
          \<and> map_option at_current_submissions
                (tasks_db (fst (app_submit_inference lib fx True sid now now' st tid data)) tid) =
              Some (at_current_submissions task + 1))"
proof (intro conjI allI impI)
  show "get_mock_verification_result_object sid tid data =
     \<lparr> mock_submission_id = sid, mock_task_id = tid, mock_is_valid = True,
       mock_ai_score = 0.85,
       mock_feedback =
         ''Mock verification: Submission appears correct based on task requirements'',
       mock_model_used = ''mock-verifier'', mock_execution_time_ms = 100 \<rparr>"
    by (simp add: get_mock_verification_result_object_def)
  show "app_verify lib fx False task sid tid data =
       (MockResult (get_mock_verification_result_object sid tid data), ''mock'')"
    by (rule app_verify_mock)
next
  fix r
  assume "(case TaskType_of (at_task_type task) of
               Inl e \<Rightarrow> Inl e
             | Inr task_type \<Rightarrow> verify_submission lib fx sid tid None) = Inr r"
  then show "app_verify lib fx True task sid tid data = (ClaudeResult r, ''claude_ai'')"
    by (rule app_verify_claude)
next
  fix e
  assume "(case TaskType_of (at_task_type task) of
               Inl e \<Rightarrow> Inl e
             | Inr task_type \<Rightarrow> verify_submission lib fx sid tid None) = Inl e"
  then show "app_verify lib fx True task sid tid data =
            (MockResult (get_mock_verification_result_object sid tid data), ''mock_fallback'')"
    by (rule app_verify_fallback)
next
  fix e
  assume h: "tasks_db st tid = Some task
          \<and> (case TaskType_of (at_task_type task) of
                Inl e \<Rightarrow> Inl e
              | Inr task_type \<Rightarrow> verify_submission lib fx sid tid None) = Inl e"
  note gt = h[THEN conjunct1] and bad = h[THEN conjunct2]
  show "snd (app_submit_inference lib fx True sid now now' st tid data) =
            Inr \<lparr> ar_status = ''success'', ar_submission_id = sid,
                  ar_is_valid = JBool True, ar_ai_score = 0.85,
                  ar_feedback = JString
                    ''Mock verification: Submission appears correct based on task requirements'',
                  ar_model_used = ''mock-verifier'', ar_verification_time_ms = 100,
                  ar_verification_type = ''mock_fallback'',
                  ar_reward_earned = at_reward_per_submission task * 0.85,
                  ar_message = ''Submission verified successfully using mock_fallback'' \<rparr>"
    by (simp add: app_submit_inference_response[OF gt] app_verify_fallback[OF bad]
          get_mock_verification_result_object_def)
  show "map_option at_current_submissions
                (tasks_db (fst (app_submit_inference lib fx True sid now now' st tid data)) tid) =
              Some (at_current_submissions task + 1)"
    by (rule app_submit_inference_count[OF gt])
qed

lemma ex_app_guarded_down:
  "(case TaskType_of (at_task_type ex_app_task) of
      Inl e \<Rightarrow> Inl e
    | Inr task_type \<Rightarrow> verify_submission std_lib ex_fx_down ''s1'' ''t1'' None) =
   Inl ex_down_error"
  by (simp add: TaskType_of_def ex_app_task_def ex_verify_down)

lemma ex_app_lookup: "tasks_db ex_app_state ''t1'' = Some ex_app_task"
  by (simp add: ex_app_state_def)

text \<open>
  Live mode with an unreachable judge, on the example task.
\<close>

theorem mock_verdict_also_on_failed_call_witness:
  "tasks_db ex_app_state ''t1'' = Some ex_app_task
   \<and> at_reward_per_submission ex_app_task = 10
   \<and> verify_submission std_lib ex_fx_down ''s1'' ''t1'' None = Inl ex_down_error
   \<and> app_verify std_lib ex_fx_down True ex_app_task ''s1'' ''t1'' JNull =
       (MockResult (get_mock_verification_result_object ''s1'' ''t1'' JNull), ''mock_fallback'')
   \<and> snd (app_submit_inference std_lib ex_fx_down True ''s1'' ''2024-02-01T10:00:01''
            ''2024-02-01T10:00:03'' ex_app_state ''t1'' JNull) = Inr ex_mock_response"
proof -
  have r: "at_reward_per_submission ex_app_task = 10" by (simp add: ex_app_task_def)
  note t = mock_verdict_also_on_failed_call[where lib=std_lib and fx=ex_fx_down
      and task=ex_app_task and sid="''s1''" and tid="''t1''" and data=JNull
      and st=ex_app_state and now="''2024-02-01T10:00:01''" and now'="''2024-02-01T10:00:03''"]
  note t4 = t[THEN conjunct2, THEN conjunct2, THEN conjunct2, THEN conjunct1, rule_format,
              OF ex_app_guarded_down]
  note t5 = t[THEN conjunct2, THEN conjunct2, THEN conjunct2, THEN conjunct2, rule_format,
              OF conjI[OF ex_app_lookup ex_app_guarded_down], THEN conjunct1]
  have a: "snd (app_submit_inference std_lib ex_fx_down True ''s1'' ''2024-02-01T10:00:01''
            ''2024-02-01T10:00:03'' ex_app_state ''t1'' JNull) = Inr ex_mock_response"
    using t5 by (simp add: r ex_mock_response_def)
  from ex_app_lookup r ex_verify_down t4 a show ?thesis by (intro conjI)
qed

text \<open>
  In live mode a single failing call does not propagate: the verification call raises
  \<open>VerificationError\<close>, and the endpoint answers with the mock verdict, a reward of 8.5 and
  the submission count raised from 3 to 4.
\<close>

theorem live_failure_answers_with_mock:
  "verify_submission std_lib ex_fx_down ''s1'' ''t1'' None =
     Inl (Exn VerificationError ''Verification failed: Connection error.''
            (Some (Exn APIError ''Connection error.'' None)))
   \<and> snd (app_submit_inference std_lib ex_fx_down True ''s1'' ''2024-02-01T10:00:01''
            ''2024-02-01T10:00:03'' ex_app_state ''t1''
            (JObject [(''answer'', JString ''dogs'')])) =
       Inr \<lparr> ar_status = ''success'', ar_submission_id = ''s1'',
             ar_is_valid = JBool True, ar_ai_score = 0.85,
             ar_feedback = JString
               ''Mock verification: Submission appears correct based on task requirements'',
             ar_model_used = ''mock-verifier'', ar_verification_time_ms = 100,
             ar_verification_type = ''mock_fallback'', ar_reward_earned = 8.5,
             ar_message = ''Submission verified successfully using mock_fallback'' \<rparr>
   \<and> map_option at_current_submissions
        (tasks_db (fst (app_submit_inference std_lib ex_fx_down True ''s1''
            ''2024-02-01T10:00:01'' ''2024-02-01T10:00:03'' ex_app_state ''t1''
            (JObject [(''answer'', JString ''dogs'')]))) ''t1'') = Some 4"
proof -
  have v: "verify_submission std_lib ex_fx_down ''s1'' ''t1'' None =
     Inl (Exn VerificationError ''Verification failed: Connection error.''
            (Some (Exn APIError ''Connection error.'' None)))"
    using ex_verify_down by (simp add: ex_down_error_def)
  have a: "snd (app_submit_inference std_lib ex_fx_down True ''s1'' ''2024-02-01T10:00:01''
            ''2024-02-01T10:00:03'' ex_app_state ''t1''
            (JObject [(''answer'', JString ''dogs'')])) =
       Inr \<lparr> ar_status = ''success'', ar_submission_id = ''s1'',
             ar_is_valid = JBool True, ar_ai_score = 0.85,
             ar_feedback = JString
               ''Mock verification: Submission appears correct based on task requirements'',
             ar_model_used = ''mock-verifier'', ar_verification_time_ms = 100,
             ar_verification_type = ''mock_fallback'', ar_reward_earned = 8.5,
             ar_message = ''Submission verified successfully using mock_fallback'' \<rparr>"
    by (simp add: app_submit_inference_response[OF ex_app_lookup]
          app_verify_fallback[OF ex_app_guarded_down] get_mock_verification_result_object_def)
       (simp add: ex_app_task_def)
  have c: "map_option at_current_submissions
        (tasks_db (fst (app_submit_inference std_lib ex_fx_down True ''s1''
            ''2024-02-01T10:00:01'' ''2024-02-01T10:00:03'' ex_app_state ''t1''
            (JObject [(''answer'', JString ''dogs'')]))) ''t1'') = Some 4"
    by (simp add: app_submit_inference_count[OF ex_app_lookup] ex_app_task_def)
  from v a c show ?thesis by (intro conjI)
qed

section \<open>A span that is found and does not parse\<close>

lemma ex_unquoted_whole: "json_decode ''Verdict: {is_valid: true}'' = None"
  by code_simp

lemma ex_unquoted_span: "json_decode ''{is_valid: true}'' = None"
  by code_simp

lemma ex_unquoted_search: "re_search_braces ''Verdict: {is_valid: true}'' = Some ''{is_valid: true}''"
  by code_simp

lemma ex_refusal_whole: "json_decode ''I cannot comply'' = None"
  by code_simp

text \<open>
  C6. A judge text that is not JSON and whose brace span is not JSON either: both the
  whole-text parse and the parse of the extracted span fail. The parser then leaves with
  the decoder's \<open>JSONDecodeError\<close> for the span, not with the error that carries the raw
  text. That error is raised only when no span is found, as for \<open>I cannot comply\<close>.
\<close>

theorem unparsable_span_raises_decoder_error:
  "isl (json_loads std_lib ''Verdict: {is_valid: true}'')
   \<and> re_search_braces ''Verdict: {is_valid: true}'' = Some ''{is_valid: true}''
   \<and> isl (json_loads std_lib ''{is_valid: true}'')
   \<and> isl (parse_claude_response std_lib 101 ''Verdict: {is_valid: true}'' ''s1'' ''t1'')
   \<and> exn_class (projl (parse_claude_response std_lib 101 ''Verdict: {is_valid: true}'' ''s1'' ''t1'')) = JSONDecodeError
   \<and> parse_claude_response std_lib 101 ''Verdict: {is_valid: true}'' ''s1'' ''t1'' \<noteq>
       Inl (Exn VerificationError (''Could not parse Claude response: '' @ ''Verdict: {is_valid: true}'') None)
   \<and> re_search_braces ''I cannot comply'' = None
   \<and> parse_claude_response std_lib 101 ''I cannot comply'' ''s1'' ''t1'' =
       Inl (Exn VerificationError ''Could not parse Claude response: I cannot comply'' None)"
proof -
  note w = std_lib_loads(2)[OF ex_unquoted_whole]
  note g = std_lib_loads(2)[OF ex_unquoted_span]
  note n = std_lib_loads(2)[OF ex_refusal_whole]
  have r: "re_search_braces ''I cannot comply'' = None" by simp
  have p: "parse_claude_response std_lib 101 ''Verdict: {is_valid: true}'' ''s1'' ''t1'' =
             Inl (Exn JSONDecodeError ''invalid JSON document'' None)"
    by (simp add: parse_claude_response_fallback[OF w ex_unquoted_search] g)
  have q: "parse_claude_response std_lib 101 ''I cannot comply'' ''s1'' ''t1'' =
       Inl (Exn VerificationError ''Could not parse Claude response: I cannot comply'' None)"
    using parse_claude_response_no_match[OF n r, of 101 "''s1''" "''t1''"] by simp
  show ?thesis using ex_unquoted_search r q by (simp add: w g p)
qed

section \<open>The reference decoder does not depend on its bound\<close>

lemma skip_ws_length: "length (skip_ws s) \<le> length s"
  by (simp add: skip_ws_def length_dropWhile_le)

lemma skip_ws_Cons_length: "skip_ws s = c # r \<Longrightarrow> length r < length s"
  using skip_ws_length[of s] by simp

lemma scanstring_shorter: "scanstring s = Some (str, r) \<Longrightarrow> length r < length s"
proof (induction s arbitrary: str rule: scanstring.induct)
  case 1
  then show ?case by simp
next
  case (2 c cs)
  show ?case
  proof (cases "c = CHR 0x22")
    case True
    with "2.prems" show ?thesis by simp
  next
    case nq: False
    show ?thesis
    proof (cases "c = CHR 0x5C")
      case True
      with nq "2.prems" obtain e cs' ch str' where
        cs: "cs = e # cs'" and "escape_char e = Some ch" and "scanstring cs' = Some (str', r)"
        by (auto split: list.splits option.splits)
      with "2.IH"(1)[OF nq True cs] have "length r < length cs'" by simp
      with cs show ?thesis by simp
    next
      case False
      with nq "2.prems" obtain str' where "scanstring cs = Some (str', r)"
        and "\<not> (of_char c :: nat) < 0x20"
        by (auto split: option.splits if_splits)
      with "2.IH"(2)[OF nq False] have "length r < length cs" by simp
      then show ?thesis by simp
    qed
  qed
qed


lemma match_integer_shorter:
  "match_integer s = Some (neg, ds, r) \<Longrightarrow> length r < length s"
  by (auto simp: match_integer_def Let_def length_dropWhile_le less_Suc_eq_le
      split: list.splits if_splits prod.splits
      intro: le_less_trans[OF length_dropWhile_le] le_trans[OF length_dropWhile_le])

lemma match_frac_shorter: "match_frac s = Some (f, r) \<Longrightarrow> length r \<le> length s"
  by (auto simp: match_frac_def split: list.splits if_splits
      intro: le_trans[OF length_dropWhile_le])

lemma match_exp_shorter: "match_exp s = Some (k, r) \<Longrightarrow> length r \<le> length s"
  by (auto simp: match_exp_def Let_def split: list.splits if_splits prod.splits
      intro: le_trans[OF length_dropWhile_le])

lemma match_number_shorter: "match_number s = Some (v, r) \<Longrightarrow> length r < length s"
proof -
  assume a: "match_number s = Some (v, r)"
  then obtain neg ds r0 where i: "match_integer s = Some (neg, ds, r0)"
    by (auto simp: match_number_def split: option.splits)
  define r1 where "r1 = (case match_frac r0 of None \<Rightarrow> r0 | Some (_, r') \<Rightarrow> r')"
  define r2 where "r2 = (case match_exp r1 of None \<Rightarrow> r1 | Some (_, r') \<Rightarrow> r')"
  have "length r1 \<le> length r0"
    unfolding r1_def by (auto split: option.splits dest: match_frac_shorter)
  moreover have "length r2 \<le> length r1"
    unfolding r2_def by (auto split: option.splits dest: match_exp_shorter)
  moreover have "r = r2"
    using a i unfolding match_number_def r1_def r2_def
    by (auto simp: Let_def split: if_splits)
  ultimately show ?thesis using match_integer_shorter[OF i] by simp
qed


lemma drop_literal_shorter: "0 < k \<Longrightarrow> length (drop k (c # cs)) < length (c # cs)"
  by simp

lemma scan_shorter_aux:
  "(\<forall>s v r. scan_once n s = Some (v, r) \<longrightarrow> length r < length s)
   \<and> (\<forall>s p v r. parse_members n s p = Some (v, r) \<longrightarrow> length r < length s)
   \<and> (\<forall>s vs v r. parse_elems n s vs = Some (v, r) \<longrightarrow> length r < length s)"
proof (induction n)
  case 0
  then show ?case by simp
next
  case (Suc n)
  then have IH1: "\<And>s v r. scan_once n s = Some (v, r) \<Longrightarrow> length r < length s"
    and IH2: "\<And>s p v r. parse_members n s p = Some (v, r) \<Longrightarrow> length r < length s"
    and IH3: "\<And>s vs v r. parse_elems n s vs = Some (v, r) \<Longrightarrow> length r < length s"
    by blast+
  have A: "length r < length s" if a: "scan_once (Suc n) s = Some (v, r)" for s v r
  proof (cases s)
    case Nil
    with a show ?thesis by simp
  next
    case (Cons c cs)
    consider (str) "c = CHR 0x22" | (obj) "c \<noteq> CHR 0x22" "c = CHR ''{''"
      | (arr) "c \<noteq> CHR 0x22" "c \<noteq> CHR ''{''" "c = CHR ''[''"
      | (other) "c \<noteq> CHR 0x22" "c \<noteq> CHR ''{''" "c \<noteq> CHR ''[''" by blast
    then show ?thesis
    proof cases
      case str
      with a Cons obtain st where "scanstring cs = Some (st, r)"
        by (auto split: option.splits)
      from scanstring_shorter[OF this] Cons show ?thesis by simp
    next
      case obj
      with a Cons obtain c' r0 where w: "skip_ws cs = c' # r0"
        and d: "(c' = CHR ''}'' \<and> r = r0) \<or> (c' = CHR 0x22 \<and> parse_members n r0 [] = Some (v, r))"
        by (auto split: list.splits if_splits)
      from skip_ws_Cons_length[OF w] have "length r0 < length cs" .
      moreover from d have "length r \<le> length r0"
        using IH2[of r0 "[]" v r] by auto
      ultimately show ?thesis using Cons by simp
    next
      case arr
      with a Cons obtain c' r0 where w: "skip_ws cs = c' # r0"
        and d: "(c' = CHR '']'' \<and> r = r0) \<or> parse_elems n (c' # r0) [] = Some (v, r)"
        by (auto split: list.splits if_splits)
      from skip_ws_length[of cs] w have "length (c' # r0) \<le> length cs" by simp
      moreover from d have "length r < length (c' # r0)"
        using IH3[of "c' # r0" "[]" v r] by auto
      ultimately show ?thesis using Cons by simp
    next
      case other
      with a Cons have "r = drop 4 (c # cs) \<or> r = drop 5 (c # cs)
          \<or> match_number (c # cs) = Some (v, r)"
        by (auto split: if_splits)
      then show ?thesis using Cons match_number_shorter[of "c # cs" v r] by auto
    qed
  qed
  have B: "length r < length s" if a: "parse_members (Suc n) s p = Some (v, r)" for s p v r
  proof -
    from a obtain key r0 where k: "scanstring s = Some (key, r0)"
      by (auto split: option.splits)
    from a k obtain c r1 where w: "skip_ws r0 = c # r1" and c: "c = CHR '':''"
      by (auto split: list.splits if_splits)
    from a k w c obtain v1 r2 where v: "scan_once n (skip_ws r1) = Some (v1, r2)"
      by (auto split: option.splits)
    from a k w c v obtain c' r3 where w2: "skip_ws r2 = c' # r3"
      by (auto simp: Let_def split: list.splits)
    have l: "length r3 < length s"
      using scanstring_shorter[OF k] skip_ws_Cons_length[OF w] IH1[OF v]
        skip_ws_length[of r1] skip_ws_Cons_length[OF w2] by linarith
    from a k w c v w2 have "r = r3 \<or>
        (\<exists>q r4 p'. skip_ws r3 = q # r4 \<and> parse_members n r4 p' = Some (v, r))"
      by (auto simp: Let_def split: if_splits list.splits)
    then show ?thesis
    proof
      assume "r = r3" with l show ?thesis by simp
    next
      assume "\<exists>q r4 p'. skip_ws r3 = q # r4 \<and> parse_members n r4 p' = Some (v, r)"
      then obtain q r4 p' where "skip_ws r3 = q # r4" "parse_members n r4 p' = Some (v, r)"
        by blast
      with skip_ws_Cons_length[of r3 q r4] IH2[of r4 p' v r] l show ?thesis by linarith
    qed
  qed
  have C: "length r < length s" if a: "parse_elems (Suc n) s vs = Some (v, r)" for s vs v r
  proof -
    from a obtain v1 r0 where v: "scan_once n s = Some (v1, r0)"
      by (auto split: option.splits)
    from a v obtain c r1 where w: "skip_ws r0 = c # r1"
      by (auto split: list.splits)
    have l: "length r1 < length s"
      using IH1[OF v] skip_ws_Cons_length[OF w] by linarith
    from a v w have "r = r1 \<or> (\<exists>vs'. parse_elems n (skip_ws r1) vs' = Some (v, r))"
      by (auto split: if_splits)
    then show ?thesis
    proof
      assume "r = r1" with l show ?thesis by simp
    next
      assume "\<exists>vs'. parse_elems n (skip_ws r1) vs' = Some (v, r)"
      then obtain vs' where "parse_elems n (skip_ws r1) vs' = Some (v, r)" by blast
      with IH3[of "skip_ws r1" vs' v r] skip_ws_length[of r1] l show ?thesis by linarith
    qed
  qed
  from A B C show ?case by blast
qed

lemma scan_once_shorter: "scan_once n s = Some (v, r) \<Longrightarrow> length r < length s"
  using scan_shorter_aux by blast

lemma parse_members_shorter: "parse_members n s p = Some (v, r) \<Longrightarrow> length r < length s"
  using scan_shorter_aux by blast

lemma parse_elems_shorter: "parse_elems n s vs = Some (v, r) \<Longrightarrow> length r < length s"
  using scan_shorter_aux by blast


lemma scan_stable_aux:
  "(\<forall>s. 2 * length s + 1 \<le> n \<longrightarrow> scan_once (Suc n) s = scan_once n s)
   \<and> (\<forall>s p. 2 * length s + 1 \<le> n \<longrightarrow> parse_members (Suc n) s p = parse_members n s p)
   \<and> (\<forall>s vs. 2 * length s + 2 \<le> n \<longrightarrow> parse_elems (Suc n) s vs = parse_elems n s vs)"
proof (induction n)
  case 0
  then show ?case by simp
next
  case (Suc n)
  then have IH1: "\<And>s. 2 * length s + 1 \<le> n \<Longrightarrow> scan_once (Suc n) s = scan_once n s"
    and IH2: "\<And>s p. 2 * length s + 1 \<le> n \<Longrightarrow>
                parse_members (Suc n) s p = parse_members n s p"
    and IH3: "\<And>s vs. 2 * length s + 2 \<le> n \<Longrightarrow>
                parse_elems (Suc n) s vs = parse_elems n s vs"
    by blast+
  have A: "scan_once (Suc (Suc n)) s = scan_once (Suc n) s" if b: "2 * length s + 1 \<le> Suc n" for s
  proof (cases s)
    case Nil
    then show ?thesis by simp
  next
    case (Cons c cs)
    have pm: "parse_members (Suc n) r0 [] = parse_members n r0 []"
      if "skip_ws cs = c' # r0" for c' r0
      using skip_ws_Cons_length[OF that] b Cons by (intro IH2) simp
    have pe: "parse_elems (Suc n) (c' # r0) [] = parse_elems n (c' # r0) []"
      if "skip_ws cs = c' # r0" for c' r0
      using skip_ws_length[of cs] that b Cons by (intro IH3) simp
    show ?thesis
      unfolding Cons scan_once.simps
      by (simp add: pm pe split: list.splits cong: if_cong
            del: parse_members.simps parse_elems.simps)
  qed
  have B: "parse_members (Suc (Suc n)) s p = parse_members (Suc n) s p"
    if b: "2 * length s + 1 \<le> Suc n" for s p
  proof (cases "scanstring s")
    case None
    then show ?thesis
      unfolding parse_members.simps(2)[of "Suc n" s p] parse_members.simps(2)[of n s p]
      by simp
  next
    case (Some kr)
    obtain key r0 where kr: "kr = (key, r0)" by (cases kr)
    note k = Some[unfolded kr]
    show ?thesis
    proof (cases "skip_ws r0")
      case Nil
      with k show ?thesis
        unfolding parse_members.simps(2)[of "Suc n" s p] parse_members.simps(2)[of n s p]
        by simp
    next
      case (Cons c r1)
      have l1: "length (skip_ws r1) + 2 \<le> length s"
        using scanstring_shorter[OF k] skip_ws_Cons_length[OF Cons] skip_ws_length[of r1]
        by linarith
      have so: "scan_once (Suc n) (skip_ws r1) = scan_once n (skip_ws r1)"
        using l1 b by (intro IH1) simp
      show ?thesis
      proof (cases "scan_once n (skip_ws r1)")
        case None
        with k Cons so show ?thesis
          unfolding parse_members.simps(2)[of "Suc n" s p] parse_members.simps(2)[of n s p]
          by (simp del: scan_once.simps parse_members.simps parse_elems.simps)
      next
        case (Some vr)
        obtain v r2 where vr: "vr = (v, r2)" by (cases vr)
        note sv = Some[unfolded vr]
        have pm: "parse_members (Suc n) r4 p' = parse_members n r4 p'"
          if "skip_ws r2 = c' # r3" "skip_ws r3 = q # r4" for c' r3 q r4 p'
          using scan_once_shorter[OF sv] skip_ws_Cons_length[OF that(1)]
            skip_ws_Cons_length[OF that(2)] l1 b
          by (intro IH2) simp
        show ?thesis
          unfolding parse_members.simps(2)[of "Suc n" s p] parse_members.simps(2)[of n s p]
          using k Cons so sv
          by (simp add: Let_def pm split: list.splits cong: if_cong
                del: scan_once.simps parse_members.simps parse_elems.simps)
      qed
    qed
  qed
  have C: "parse_elems (Suc (Suc n)) s vs = parse_elems (Suc n) s vs"
    if b: "2 * length s + 2 \<le> Suc n" for s vs
  proof -
    have so: "scan_once (Suc n) s = scan_once n s"
      using b by (intro IH1) simp
    show ?thesis
    proof (cases "scan_once n s")
      case None
      with so show ?thesis
        unfolding parse_elems.simps(2)[of "Suc n" s vs] parse_elems.simps(2)[of n s vs]
        by (simp del: scan_once.simps parse_members.simps parse_elems.simps)
    next
      case (Some vr)
      obtain v r0 where vr: "vr = (v, r0)" by (cases vr)
      note sv = Some[unfolded vr]
      have pe: "parse_elems (Suc n) (skip_ws r1) vs' = parse_elems n (skip_ws r1) vs'"
        if "skip_ws r0 = c # r1" for c r1 vs'
        using scan_once_shorter[OF sv] skip_ws_Cons_length[OF that] skip_ws_length[of r1] b
        by (intro IH3) simp
      show ?thesis
        unfolding parse_elems.simps(2)[of "Suc n" s vs] parse_elems.simps(2)[of n s vs]
        using so sv
        by (simp add: pe split: list.splits cong: if_cong
              del: scan_once.simps parse_members.simps parse_elems.simps)
    qed
  qed
  from A B C show ?case by blast
qed

lemma scan_once_stable:
  assumes "2 * length s + 1 \<le> n" and "n \<le> m"
  shows "scan_once m s = scan_once n s"
  using assms(2,1)
proof (induction m rule: dec_induct)
  case base
  then show ?case by simp
next
  case (step k)
  then have "2 * length s + 1 \<le> k" by simp
  with scan_stable_aux[of k] have "scan_once (Suc k) s = scan_once k s" by blast
  with step show ?case by simp
qed

text \<open>
  The decoder's answer is the one given with any larger bound: a failure is a failure
  of the document, never an exhausted bound.
\<close>

lemma json_decode_bound:
  assumes "2 * length s + 2 \<le> n"
  shows "(case scan_once n (skip_ws s) of
            None \<Rightarrow> None
          | Some (v, rest) \<Rightarrow> if skip_ws rest = [] then Some v else None) = json_decode s"
proof -
  have "2 * length (skip_ws s) + 1 \<le> 2 * length s + 2"
    using skip_ws_length[of s] by simp
  from scan_once_stable[OF this assms] show ?thesis by (simp add: json_decode_def)
qed

end
